theory Spec2Isabelle
  imports Main "HOL-Library.Word"
begin

unbundle bit_operations_syntax

section \<open>The TCP connection tracker of \<open>TCP_Analyzer/tcp_analyzer.cpp\<close>\<close>

text \<open>
  The program captures Ethernet frames from a raw socket, skips everything that is not
  IPv4/TCP, reads the addresses, ports, flags and lengths out of the headers, maps both
  directions of a connection to one key and drives a simplified TCP state machine that is
  kept in one global \<open>std::map\<close>. The embedding below follows the source function by
  function: \<open>make_canonical_id\<close>, \<open>process_tcp_packet\<close> and the body of the capture
  loop of \<open>main\<close>.
\<close>

subsection \<open>Machine integers and byte order\<close>

type_synonym uint8_t = "8 word"
type_synonym uint16_t = "16 word"
type_synonym uint32_t = "32 word"

text \<open>
  The program runs on Linux on a host of either byte order. The header fields wider than
  one byte are read through the structs of the system headers, that is in the byte order
  of the host, and \<open>ntohs\<close> of the C library converts a 16-bit value from network (big
  endian) order to the order of the host. The byte order of the host is a parameter of
  the model.
\<close>

datatype byte_order = LITTLE_ENDIAN | BIG_ENDIAN

definition ntohs :: "byte_order \<Rightarrow> uint16_t \<Rightarrow> uint16_t" where
  "ntohs bo w = (case bo of
       LITTLE_ENDIAN \<Rightarrow> push_bit 8 w OR drop_bit 8 w
     | BIG_ENDIAN \<Rightarrow> w)"

subsection \<open>States, connection identifiers and the tracking table\<close>

datatype TcpState =
    CLOSED | SYN_SENT | SYN_RECEIVED | ESTABLISHED | FIN_WAIT_1 | FIN_WAIT_2
  | CLOSE_WAIT | LAST_ACK | TIME_WAIT | CLOSING

record ConnectionID =
  src_ip :: uint32_t
  dst_ip :: uint32_t
  src_port :: uint16_t
  dst_port :: uint16_t

text \<open>\<open>ConnectionID::operator<\<close>, the order the \<open>std::map\<close> is keyed by.\<close>

definition ConnectionID_less :: "ConnectionID \<Rightarrow> ConnectionID \<Rightarrow> bool" where
  "ConnectionID_less a other =
     (if src_ip a \<noteq> src_ip other then src_ip a < src_ip other
      else if dst_ip a \<noteq> dst_ip other then dst_ip a < dst_ip other
      else if src_port a \<noteq> src_port other then src_port a < src_port other
      else dst_port a < dst_port other)"

text \<open>\<open>make_canonical_id\<close> (lines 139-172), branch by branch.\<close>

definition make_canonical_id ::
  "uint32_t \<Rightarrow> uint16_t \<Rightarrow> uint32_t \<Rightarrow> uint16_t \<Rightarrow> ConnectionID" where
  "make_canonical_id ip1 port1 ip2 port2 =
     (if ip1 < ip2 then
        \<lparr>src_ip = ip1, dst_ip = ip2, src_port = port1, dst_port = port2\<rparr>
      else if ip1 > ip2 then
        \<lparr>src_ip = ip2, dst_ip = ip1, src_port = port2, dst_port = port1\<rparr>
      else if port1 < port2 then
        \<lparr>src_ip = ip1, dst_ip = ip2, src_port = port1, dst_port = port2\<rparr>
      else
        \<lparr>src_ip = ip2, dst_ip = ip1, src_port = port2, dst_port = port1\<rparr>)"

text \<open>
  The global \<open>std::map<ConnectionID, TcpState> connection_tracker\<close>. Two keys of a
  \<open>std::map\<close> are the same key when neither is less than the other; for
  \<open>ConnectionID_less\<close> that is equality of the four fields (lemma
  \<open>ConnectionID_less_equiv\<close> below), so the table is a partial map on the records.
\<close>

type_synonym tracker = "ConnectionID \<rightharpoonup> TcpState"

subsection \<open>The TCP header and the reported events\<close>

text \<open>
  \<open>struct tcphdr\<close> of \<open><netinet/tcp.h>\<close>: the fields the program reads (ports, data
  offset) and the six flag bits the source lists; the ports are kept as they stand in
  the header, in network byte order.
\<close>

record tcphdr =
  source :: uint16_t
  dest :: uint16_t
  doff :: uint8_t
  fin :: bool
  syn :: bool
  rst :: bool
  psh :: bool
  ack :: bool
  urg :: bool

text \<open>
  Every \<open>printf\<close> of \<open>process_tcp_packet\<close> is one event: the tag printed in
  parentheses (\<open>Data\<close> for the data-transfer line), the two addresses as passed in, the
  two ports after \<open>ntohs\<close>, the two states printed in brackets, and the byte count that
  only the data-transfer line prints. The time stamp is left out.
\<close>

datatype Reason = Syn | SynAck | Ack | Fin | Rst | Data

record TransitionEvent =
  reason :: Reason
  ev_src_ip :: uint32_t
  ev_src_port :: uint16_t
  ev_dst_ip :: uint32_t
  ev_dst_port :: uint16_t
  from_state :: TcpState
  to_state :: TcpState
  bytes :: "int option"

definition event_line ::
  "byte_order \<Rightarrow> Reason \<Rightarrow> uint32_t \<Rightarrow> uint16_t \<Rightarrow> uint32_t \<Rightarrow> uint16_t \<Rightarrow>
   TcpState \<Rightarrow> TcpState \<Rightarrow> int option \<Rightarrow> TransitionEvent" where
  "event_line bo r sip sport dip dport s s' n =
     \<lparr>reason = r, ev_src_ip = sip, ev_src_port = ntohs bo sport,
      ev_dst_ip = dip, ev_dst_port = ntohs bo dport,
      from_state = s, to_state = s', bytes = n\<rparr>"

subsection \<open>The state machine\<close>

text \<open>Lines 244-248: the state of a key that is not in the table is \<open>CLOSED\<close>.\<close>

definition current_state_of :: "tracker \<Rightarrow> ConnectionID \<Rightarrow> TcpState" where
  "current_state_of t key = (case t key of None \<Rightarrow> CLOSED | Some s \<Rightarrow> s)"

text \<open>
  \<open>process_tcp_packet\<close> (lines 238-456): the chain of \<open>if (...) { ...; return; }\<close> in
  the order of the source, the second \<open>ESTABLISHED\<close>/\<open>fin\<close> test of line 422 included.
  The table is passed in and returned; \<open>connection_tracker[key] = s\<close> is
  \<open>t(key \<mapsto> s)\<close> and \<open>connection_tracker.erase(key)\<close> is \<open>t(key := None)\<close>. Falling off
  the end of the function changes nothing and prints nothing.
\<close>

definition process_tcp_packet ::
  "byte_order \<Rightarrow> tracker \<Rightarrow> ConnectionID \<Rightarrow> tcphdr \<Rightarrow>
   uint32_t \<Rightarrow> uint32_t \<Rightarrow> uint16_t \<Rightarrow> uint16_t \<Rightarrow> int \<Rightarrow>
   tracker \<times> TransitionEvent option" where
  "process_tcp_packet bo t key tcp sip dip sport dport data_len =
     (let current_state = current_state_of t key;
          ev = (\<lambda>r s s' n. Some (event_line bo r sip sport dip dport s s' n))
      in
      if rst tcp then
        (t(key := None), ev Rst current_state CLOSED None)
      else if current_state = CLOSED \<and> syn tcp \<and> \<not> ack tcp then
        (t(key \<mapsto> SYN_SENT), ev Syn CLOSED SYN_SENT None)
      else if current_state = SYN_SENT \<and> syn tcp \<and> ack tcp then
        (t(key \<mapsto> ESTABLISHED), ev SynAck SYN_SENT ESTABLISHED None)
      else if current_state = SYN_SENT \<and> ack tcp \<and> \<not> syn tcp \<and> \<not> fin tcp then
        (t(key \<mapsto> ESTABLISHED), ev Ack SYN_SENT ESTABLISHED None)
      else if current_state = ESTABLISHED \<and> data_len > 0 then
        (t, ev Data ESTABLISHED ESTABLISHED (Some data_len))
      else if current_state = ESTABLISHED \<and> fin tcp then
        (t(key \<mapsto> FIN_WAIT_1), ev Fin ESTABLISHED FIN_WAIT_1 None)
      else if current_state = FIN_WAIT_1 \<and> ack tcp \<and> \<not> fin tcp then
        (t(key \<mapsto> FIN_WAIT_2), ev Ack FIN_WAIT_1 FIN_WAIT_2 None)
      else if current_state = FIN_WAIT_1 \<and> fin tcp then
        (t(key \<mapsto> CLOSING), ev Fin FIN_WAIT_1 CLOSING None)
      else if current_state = FIN_WAIT_2 \<and> fin tcp then
        (t(key \<mapsto> TIME_WAIT), ev Fin FIN_WAIT_2 TIME_WAIT None)
      else if current_state = TIME_WAIT \<and> ack tcp then
        (t(key := None), ev Ack TIME_WAIT CLOSED None)
      else if current_state = CLOSING \<and> ack tcp then
        (t(key := None), ev Ack CLOSING CLOSED None)
      else if current_state = ESTABLISHED \<and> fin tcp then
        (t(key \<mapsto> CLOSE_WAIT), ev Fin ESTABLISHED CLOSE_WAIT None)
      else if current_state = CLOSE_WAIT \<and> fin tcp then
        (t(key \<mapsto> LAST_ACK), ev Fin CLOSE_WAIT LAST_ACK None)
      else if current_state = LAST_ACK \<and> ack tcp then
        (t(key := None), ev Ack LAST_ACK CLOSED None)
      else (t, None))"

text \<open>
  The guards of the rules of \<open>process_tcp_packet\<close>, collected: a state, the flags and
  the payload length are matched by a rule when one of the \<open>if\<close> conditions of the
  function holds for them.
\<close>

definition rule_matched :: "TcpState \<Rightarrow> tcphdr \<Rightarrow> int \<Rightarrow> bool" where
  "rule_matched s tcp data_len =
     (rst tcp
      \<or> (s = CLOSED \<and> syn tcp \<and> \<not> ack tcp)
      \<or> (s = SYN_SENT \<and> syn tcp \<and> ack tcp)
      \<or> (s = SYN_SENT \<and> ack tcp \<and> \<not> syn tcp \<and> \<not> fin tcp)
      \<or> (s = ESTABLISHED \<and> data_len > 0)
      \<or> (s = ESTABLISHED \<and> fin tcp)
      \<or> (s = FIN_WAIT_1 \<and> ack tcp \<and> \<not> fin tcp)
      \<or> (s = FIN_WAIT_1 \<and> fin tcp)
      \<or> (s = FIN_WAIT_2 \<and> fin tcp)
      \<or> (s = TIME_WAIT \<and> ack tcp)
      \<or> (s = CLOSING \<and> ack tcp)
      \<or> (s = CLOSE_WAIT \<and> fin tcp)
      \<or> (s = LAST_ACK \<and> ack tcp))"

text \<open>
  A run of the tracker is a sequence of calls of \<open>process_tcp_packet\<close> on the global
  table, each with its own arguments; the events are collected in the order they are
  printed.
\<close>

record tcp_call =
  arg_key :: ConnectionID
  arg_tcp :: tcphdr
  arg_src_ip :: uint32_t
  arg_dst_ip :: uint32_t
  arg_src_port :: uint16_t
  arg_dst_port :: uint16_t
  arg_data_len :: int

definition process_call ::
  "byte_order \<Rightarrow> tracker \<Rightarrow> tcp_call \<Rightarrow> tracker \<times> TransitionEvent option" where
  "process_call bo t c =
     process_tcp_packet bo t (arg_key c) (arg_tcp c) (arg_src_ip c) (arg_dst_ip c)
       (arg_src_port c) (arg_dst_port c) (arg_data_len c)"

fun process_calls ::
  "byte_order \<Rightarrow> tracker \<Rightarrow> tcp_call list \<Rightarrow> tracker \<times> TransitionEvent list" where
  "process_calls bo t [] = (t, [])"
| "process_calls bo t (c # cs) =
     (case process_call bo t c of (t', e) \<Rightarrow>
        (case process_calls bo t' cs of (t'', es) \<Rightarrow>
           (t'', (case e of None \<Rightarrow> [] | Some x \<Rightarrow> [x]) @ es)))"

subsection \<open>The header decoder in the capture loop\<close>

text \<open>
  How a host of byte order \<open>bo\<close> reads a \<open>uint16_t\<close> or \<open>uint32_t\<close> from consecutive
  bytes of memory. A header field read this way, without conversion, is in network byte
  order; the number the bytes denote on the wire (the value in host byte order) is the
  big-endian reading.
\<close>

definition word16_of_bytes :: "byte_order \<Rightarrow> uint8_t \<Rightarrow> uint8_t \<Rightarrow> uint16_t" where
  "word16_of_bytes bo b0 b1 = (case bo of
       LITTLE_ENDIAN \<Rightarrow> ucast b0 OR push_bit 8 (ucast b1)
     | BIG_ENDIAN \<Rightarrow> push_bit 8 (ucast b0) OR ucast b1)"

definition word32_of_bytes ::
  "byte_order \<Rightarrow> uint8_t \<Rightarrow> uint8_t \<Rightarrow> uint8_t \<Rightarrow> uint8_t \<Rightarrow> uint32_t" where
  "word32_of_bytes bo b0 b1 b2 b3 = (case bo of
       LITTLE_ENDIAN \<Rightarrow>
         ucast b0 OR push_bit 8 (ucast b1) OR push_bit 16 (ucast b2) OR push_bit 24 (ucast b3)
     | BIG_ENDIAN \<Rightarrow>
         push_bit 24 (ucast b0) OR push_bit 16 (ucast b1) OR push_bit 8 (ucast b2) OR ucast b3)"

definition load_u16 :: "byte_order \<Rightarrow> uint8_t list \<Rightarrow> nat \<Rightarrow> uint16_t" where
  "load_u16 bo buf off = word16_of_bytes bo (buf ! off) (buf ! (off + 1))"

definition load_u32 :: "byte_order \<Rightarrow> uint8_t list \<Rightarrow> nat \<Rightarrow> uint32_t" where
  "load_u32 bo buf off =
     word32_of_bytes bo (buf ! off) (buf ! (off + 1)) (buf ! (off + 2)) (buf ! (off + 3))"

text \<open>
  The TCP header at offset \<open>off\<close> of the buffer, in the layout of \<open>struct tcphdr\<close>:
  source port in bytes 0-1, destination port in bytes 2-3, the data offset in the high
  four bits of byte 12, and in byte 13 the flags \<open>fin\<close> (bit 0), \<open>syn\<close>, \<open>rst\<close>,
  \<open>psh\<close>, \<open>ack\<close> and \<open>urg\<close> (bit 5). The system header orders its bit fields by the
  byte order of the host so that they land on these bits on every host.
\<close>

definition read_tcphdr :: "byte_order \<Rightarrow> uint8_t list \<Rightarrow> nat \<Rightarrow> tcphdr" where
  "read_tcphdr bo buf off =
     \<lparr>source = load_u16 bo buf off,
      dest = load_u16 bo buf (off + 2),
      doff = drop_bit 4 (buf ! (off + 12)),
      fin = bit (buf ! (off + 13)) 0,
      syn = bit (buf ! (off + 13)) 1,
      rst = bit (buf ! (off + 13)) 2,
      psh = bit (buf ! (off + 13)) 3,
      ack = bit (buf ! (off + 13)) 4,
      urg = bit (buf ! (off + 13)) 5\<rparr>"

text \<open>What the loop body has in hand when it calls \<open>process_tcp_packet\<close> (line 595).\<close>

record Decoded =
  d_tcp :: tcphdr
  d_src_ip :: uint32_t
  d_dst_ip :: uint32_t
  d_src_port :: uint16_t
  d_dst_port :: uint16_t
  d_tcp_data_len :: int
  d_key :: ConnectionID

text \<open>
  Lines 539-588 of \<open>main\<close>. The Ethernet header is 14 bytes (\<open>h_proto\<close> in bytes
  12-13); the IPv4 header follows, with \<open>ihl\<close> in the low four bits of its byte 0,
  \<open>tot_len\<close> in bytes 2-3, \<open>protocol\<close> in byte 9, \<open>saddr\<close> in bytes 12-15 and \<open>daddr\<close>
  in bytes 16-19. \<open>None\<close> is the \<open>continue\<close> of a frame that is not IPv4 or not TCP.
  The source compares no length with the number of bytes received: every field is read
  from the buffer at its offset. The highest index read is \<open>14 + 60 + 13\<close>, inside the
  65536 bytes of the buffer.
\<close>

definition decode_frame :: "byte_order \<Rightarrow> uint8_t list \<Rightarrow> Decoded option" where
  "decode_frame bo buf =
     (if ntohs bo (load_u16 bo buf 12) \<noteq> 0x0800 then None
      else if buf ! 23 \<noteq> 6 then None
      else
        let ip_header_len = uint (buf ! 14 AND 0x0F) * 4;
            tcp = read_tcphdr bo buf (14 + nat ip_header_len);
            sip = load_u32 bo buf 26;
            dip = load_u32 bo buf 30;
            sport = source tcp;
            dport = dest tcp;
            tcp_header_len = uint (doff tcp) * 4;
            ip_total_len = uint (ntohs bo (load_u16 bo buf 16));
            tcp_data_len = ip_total_len - ip_header_len - tcp_header_len;
            key = make_canonical_id sip (ntohs bo sport) dip (ntohs bo dport)
        in Some \<lparr>d_tcp = tcp, d_src_ip = sip, d_dst_ip = dip,
                  d_src_port = sport, d_dst_port = dport,
                  d_tcp_data_len = tcp_data_len, d_key = key\<rparr>)"

text \<open>
  The state of the capture loop: the receive buffer \<open>unsigned char buffer[65536]\<close> and
  the global table. \<open>recv\<close> either fails or stores a frame at the start of the buffer,
  cut to the size of the buffer, and leaves the bytes behind the frame as they were.
\<close>

record main_state =
  buffer :: "uint8_t list"
  connection_tracker :: tracker

datatype recv_result = RecvError | Frame "uint8_t list"

definition recv_into :: "uint8_t list \<Rightarrow> uint8_t list \<Rightarrow> uint8_t list" where
  "recv_into pkt buf = (let p = take (length buf) pkt in p @ drop (length p) buf)"

text \<open>
  One iteration of the \<open>while (true)\<close> loop (lines 531-596). The result carries the
  line \<open>process_tcp_packet\<close> prints, if any; the message \<open>perror\<close> writes to the error
  stream when \<open>recv\<close> fails is not an event of the tracker and is left out.
\<close>

definition main_loop_body ::
  "byte_order \<Rightarrow> recv_result \<Rightarrow> main_state \<Rightarrow> main_state \<times> TransitionEvent option" where
  "main_loop_body bo r st =
     (case r of
        RecvError \<Rightarrow> (st, None)
      | Frame pkt \<Rightarrow>
          (let buf = recv_into pkt (buffer st) in
           case decode_frame bo buf of
             None \<Rightarrow> (st\<lparr>buffer := buf\<rparr>, None)
           | Some d \<Rightarrow>
               (case process_tcp_packet bo (connection_tracker st) (d_key d) (d_tcp d)
                       (d_src_ip d) (d_dst_ip d) (d_src_port d) (d_dst_port d)
                       (d_tcp_data_len d) of
                  (t', e) \<Rightarrow> (\<lparr>buffer = buf, connection_tracker = t'\<rparr>, e))))"

text \<open>
  The \<open>while (true)\<close> loop never leaves by itself. \<open>capture_loop\<close> runs its body over
  a finite sequence of results of \<open>recv\<close>: the state of the program, and the lines it
  has printed, after any finite part of the capture.
\<close>

fun capture_loop ::
  "byte_order \<Rightarrow> main_state \<Rightarrow> recv_result list \<Rightarrow> main_state \<times> TransitionEvent list" where
  "capture_loop bo st [] = (st, [])"
| "capture_loop bo st (r # rs) =
     (case main_loop_body bo r st of (st', e) \<Rightarrow>
        (case capture_loop bo st' rs of (st'', es) \<Rightarrow>
           (st'', (case e of None \<Rightarrow> [] | Some x \<Rightarrow> [x]) @ es)))"

subsection \<open>Vocabulary of the statements\<close>

text \<open>
  The kinds of control packet the properties speak of, by their flags: a SYN, a SYN/ACK,
  a plain ACK and a FIN (with or without \<open>ack\<close>), none of them a reset.
\<close>

definition is_SYN :: "tcphdr \<Rightarrow> bool" where
  "is_SYN tcp = (syn tcp \<and> \<not> ack tcp \<and> \<not> fin tcp \<and> \<not> rst tcp)"

definition is_SYN_ACK :: "tcphdr \<Rightarrow> bool" where
  "is_SYN_ACK tcp = (syn tcp \<and> ack tcp \<and> \<not> fin tcp \<and> \<not> rst tcp)"

definition is_ACK :: "tcphdr \<Rightarrow> bool" where
  "is_ACK tcp = (ack tcp \<and> \<not> syn tcp \<and> \<not> fin tcp \<and> \<not> rst tcp)"

definition is_FIN :: "tcphdr \<Rightarrow> bool" where
  "is_FIN tcp = (fin tcp \<and> \<not> syn tcp \<and> \<not> rst tcp)"

text \<open>
  A call of \<open>process_tcp_packet\<close> for a packet without payload on the flow \<open>key\<close>,
  with the ports taken from the header as \<open>main\<close> does (lines 569-570 and 595).
\<close>

definition control_packet ::
  "ConnectionID \<Rightarrow> tcphdr \<Rightarrow> uint32_t \<Rightarrow> uint32_t \<Rightarrow> tcp_call" where
  "control_packet key tcp sip dip =
     \<lparr>arg_key = key, arg_tcp = tcp, arg_src_ip = sip, arg_dst_ip = dip,
      arg_src_port = source tcp, arg_dst_port = dest tcp, arg_data_len = 0\<rparr>"

text \<open>
  The states a rule of \<open>process_tcp_packet\<close> can store when the table was empty at the
  start, and the tables that hold only such states.
\<close>

definition live :: "TcpState \<Rightarrow> bool" where
  "live s = (s = SYN_SENT \<or> s = ESTABLISHED \<or> s = FIN_WAIT_1 \<or> s = FIN_WAIT_2
             \<or> s = TIME_WAIT \<or> s = CLOSING)"

definition tracker_live :: "tracker \<Rightarrow> bool" where
  "tracker_live t = (\<forall>k s. t k = Some s \<longrightarrow> live s)"

subsection \<open>Concrete inputs\<close>

text \<open>
  The example of the source's comment on \<open>make_canonical_id\<close>: a client
  192.168.1.100:8080 and a server 10.0.0.1:80. Addresses and ports are given by their
  bytes on the wire, so the words below are what a host of byte order \<open>bo\<close> finds in
  the header fields.
\<close>

definition client_ip :: "byte_order \<Rightarrow> uint32_t" where
  "client_ip bo = word32_of_bytes bo 192 168 1 100"

definition server_ip :: "byte_order \<Rightarrow> uint32_t" where
  "server_ip bo = word32_of_bytes bo 10 0 0 1"

definition client_port :: "byte_order \<Rightarrow> uint16_t" where
  "client_port bo = word16_of_bytes bo 0x1F 0x90"

definition server_port :: "byte_order \<Rightarrow> uint16_t" where
  "server_port bo = word16_of_bytes bo 0x00 0x50"

definition example_key :: "byte_order \<Rightarrow> ConnectionID" where
  "example_key bo =
     \<lparr>src_ip = server_ip bo, dst_ip = client_ip bo, src_port = 80, dst_port = 8080\<rparr>"

definition flags_hdr ::
  "uint16_t \<Rightarrow> uint16_t \<Rightarrow> bool \<Rightarrow> bool \<Rightarrow> bool \<Rightarrow> bool \<Rightarrow> tcphdr" where
  "flags_hdr sport dport s a f r =
     \<lparr>source = sport, dest = dport, doff = 5, fin = f, syn = s, rst = r,
      psh = False, ack = a, urg = False\<rparr>"

definition from_client :: "byte_order \<Rightarrow> bool \<Rightarrow> bool \<Rightarrow> bool \<Rightarrow> bool \<Rightarrow> tcp_call" where
  "from_client bo s a f r =
     control_packet (example_key bo) (flags_hdr (client_port bo) (server_port bo) s a f r)
       (client_ip bo) (server_ip bo)"

definition from_server :: "byte_order \<Rightarrow> bool \<Rightarrow> bool \<Rightarrow> bool \<Rightarrow> bool \<Rightarrow> tcp_call" where
  "from_server bo s a f r =
     control_packet (example_key bo) (flags_hdr (server_port bo) (client_port bo) s a f r)
       (server_ip bo) (client_ip bo)"

text \<open>
  Ethernet frames of 54 bytes for the example flow: a 14-byte Ethernet header with
  EtherType \<open>0x0800\<close>, a 20-byte IPv4 header (\<open>ihl = 5\<close>, protocol 6) whose total
  length has the low byte \<open>len\<close>, and 20 bytes of TCP header with the given addresses,
  ports, data-offset byte and flag byte.
\<close>

definition tcp_frame ::
  "uint8_t \<Rightarrow> uint8_t list \<Rightarrow> uint8_t list \<Rightarrow> uint8_t list \<Rightarrow> uint8_t list \<Rightarrow>
   uint8_t \<Rightarrow> uint8_t \<Rightarrow> uint8_t list" where
  "tcp_frame len sa da sp dp doff_byte flags_byte =
     [0x00, 0x11, 0x22, 0x33, 0x44, 0x55, 0x66, 0x77, 0x88, 0x99, 0xAA, 0xBB, 0x08, 0x00,
      0x45, 0x00, 0x00, len, 0x00, 0x00, 0x40, 0x00, 0x40, 0x06, 0x00, 0x00]
     @ sa @ da @ sp @ dp
     @ [0x00, 0x00, 0x00, 0x00, 0x00, 0x00, 0x00, 0x00, doff_byte, flags_byte,
        0xFF, 0xFF, 0x00, 0x00, 0x00, 0x00]"

text \<open>The SYN of the client and the SYN/ACK of the server, 40 bytes of IP each.\<close>

definition syn_frame :: "uint8_t list" where
  "syn_frame =
     tcp_frame 40 [192, 168, 1, 100] [10, 0, 0, 1] [0x1F, 0x90] [0x00, 0x50] 0x50 0x02"

definition synack_frame :: "uint8_t list" where
  "synack_frame =
     tcp_frame 40 [10, 0, 0, 1] [192, 168, 1, 100] [0x00, 0x50] [0x1F, 0x90] 0x50 0x12"

text \<open>
  The same SYN with a data offset of 15 words: the headers it declares take
  \<open>14 + 20 + 60 = 94\<close> bytes, of which the frame has 54.
\<close>

definition long_header_frame :: "uint8_t list" where
  "long_header_frame =
     tcp_frame 40 [192, 168, 1, 100] [10, 0, 0, 1] [0x1F, 0x90] [0x00, 0x50] 0xF0 0x02"

text \<open>
  The same SYN with an IP total length of 20: the computed payload length is
  \<open>20 - 20 - 20 = -20\<close>.
\<close>

definition short_total_frame :: "uint8_t list" where
  "short_total_frame =
     tcp_frame 20 [192, 168, 1, 100] [10, 0, 0, 1] [0x1F, 0x90] [0x00, 0x50] 0x50 0x02"

text \<open>A broadcast frame with EtherType \<open>0x0806\<close> (ARP), 42 bytes.\<close>

definition arp_frame :: "uint8_t list" where
  "arp_frame =
     [0xFF, 0xFF, 0xFF, 0xFF, 0xFF, 0xFF, 0x66, 0x77, 0x88, 0x99, 0xAA, 0xBB, 0x08, 0x06]
     @ replicate 28 0"

text \<open>
  A receive buffer of zeros, the state of the program at its first frame, and what the
  loop has in hand after decoding the SYN of the client with payload length \<open>n\<close>.
\<close>

definition zero_buffer :: "uint8_t list" where
  "zero_buffer = replicate 65536 0"

definition start_state :: main_state where
  "start_state = \<lparr>buffer = zero_buffer, connection_tracker = Map.empty\<rparr>"

text \<open>
  The first 34 bytes of the SYN of the client, its Ethernet and IPv4 headers without the
  TCP header, and the state of the program when it has received that SYN before: the
  buffer still holds the SYN, the table is empty.
\<close>

definition headers_only_frame :: "uint8_t list" where
  "headers_only_frame = take 34 syn_frame"

definition stale_state :: main_state where
  "stale_state = \<lparr>buffer = recv_into syn_frame zero_buffer, connection_tracker = Map.empty\<rparr>"

definition decoded_syn :: "byte_order \<Rightarrow> int \<Rightarrow> Decoded" where
  "decoded_syn bo n =
     \<lparr>d_tcp = flags_hdr (client_port bo) (server_port bo) True False False False,
      d_src_ip = client_ip bo, d_dst_ip = server_ip bo,
      d_src_port = client_port bo, d_dst_port = server_port bo,
      d_tcp_data_len = n, d_key = example_key bo\<rparr>"

section \<open>Properties\<close>

subsection \<open>The key order\<close>

lemma ConnectionID_less_equiv:
  "(\<not> ConnectionID_less a b \<and> \<not> ConnectionID_less b a) = (a = b)"
  by (cases a, cases b) (auto simp: ConnectionID_less_def)

lemma ConnectionID_less_trans:
  "ConnectionID_less a b \<Longrightarrow> ConnectionID_less b c \<Longrightarrow> ConnectionID_less a c"
  by (auto simp: ConnectionID_less_def split: if_splits)

subsection \<open>Canonical keys\<close>

text \<open>
  C2. Canonicalization is commutative: for every two endpoints \<open>(ipA, portA)\<close> and
  \<open>(ipB, portB)\<close>, \<open>make_canonical_id\<close> returns the same key for \<open>(A, B)\<close> and for
  \<open>(B, A)\<close>.
\<close>

theorem make_canonical_id_commute:
  "make_canonical_id ipA portA ipB portB = make_canonical_id ipB portB ipA portA"
  by (auto simp: make_canonical_id_def)

subsection \<open>Single steps of the state machine\<close>

lemma process_tcp_packet_unmatched:
  "\<not> rule_matched (current_state_of t key) tcp n \<Longrightarrow>
   process_tcp_packet bo t key tcp sip dip sport dport n = (t, None)"
  by (cases "current_state_of t key")
     (auto simp add: process_tcp_packet_def rule_matched_def Let_def)

text \<open>
  Conversely a matched input always prints a line, so \<open>rule_matched\<close> is exactly the
  set of inputs on which the function does not fall off its end.
\<close>

lemma process_tcp_packet_matched:
  "rule_matched (current_state_of t key) tcp n \<Longrightarrow>
   snd (process_tcp_packet bo t key tcp sip dip sport dport n) \<noteq> None"
  by (cases "current_state_of t key")
     (auto simp add: process_tcp_packet_def rule_matched_def Let_def)

lemma process_tcp_packet_other_key:
  "k \<noteq> key \<Longrightarrow> fst (process_tcp_packet bo t key tcp sip dip sport dport n) k = t k"
  by (simp add: process_tcp_packet_def Let_def)

lemma process_tcp_packet_rst:
  "rst tcp \<Longrightarrow>
   process_tcp_packet bo t key tcp sip dip sport dport n =
     (t(key := None),
      Some (event_line bo Rst sip sport dip dport (current_state_of t key) CLOSED None))"
  by (simp add: process_tcp_packet_def Let_def)

lemma process_tcp_packet_established_fin:
  "current_state_of t key = ESTABLISHED \<Longrightarrow> fin tcp \<Longrightarrow> \<not> rst tcp \<Longrightarrow> n \<le> 0 \<Longrightarrow>
   process_tcp_packet bo t key tcp sip dip sport dport n =
     (t(key \<mapsto> FIN_WAIT_1),
      Some (event_line bo Fin sip sport dip dport ESTABLISHED FIN_WAIT_1 None))"
  by (simp add: process_tcp_packet_def Let_def)

lemma process_tcp_packet_never_close_wait:
  "snd (process_tcp_packet bo t key tcp sip dip sport dport n) =
     Some e \<Longrightarrow> to_state e \<noteq> CLOSE_WAIT"
  by (cases "current_state_of t key")
     (auto simp add: process_tcp_packet_def Let_def event_line_def split: if_splits)

lemma process_tcp_packet_closed_removes:
  "snd (process_tcp_packet bo t key tcp sip dip sport dport n) = Some e \<Longrightarrow>
   to_state e = CLOSED \<Longrightarrow>
   fst (process_tcp_packet bo t key tcp sip dip sport dport n) key = None"
  by (cases "current_state_of t key")
     (auto simp: process_tcp_packet_def Let_def event_line_def split: if_splits)

subsection \<open>States that can be stored\<close>

lemma tracker_live_empty: "tracker_live Map.empty"
  by (simp add: tracker_live_def)

lemma tracker_liveD: "tracker_live t \<Longrightarrow> t k = Some s \<Longrightarrow> live s"
  by (simp add: tracker_live_def)

lemma process_tcp_packet_key_live:
  assumes inv: "tracker_live t"
    and res: "fst (process_tcp_packet bo t key tcp sip dip sport dport n) key = Some s"
  shows "live s"
proof (cases "t key")
  case None
  then show ?thesis using res
    by (auto simp: process_tcp_packet_def Let_def live_def current_state_of_def
        split: if_splits)
next
  case (Some c)
  then have c: "current_state_of t key = c" by (simp add: current_state_of_def)
  from inv Some have "live c" by (rule tracker_liveD)
  then show ?thesis using res c Some
    by (cases c) (auto simp: process_tcp_packet_def Let_def live_def split: if_splits)
qed

lemma process_tcp_packet_live:
  assumes "tracker_live t"
  shows "tracker_live (fst (process_tcp_packet bo t key tcp sip dip sport dport n))"
  unfolding tracker_live_def
proof (intro allI impI)
  fix k s
  assume res: "fst (process_tcp_packet bo t key tcp sip dip sport dport n) k = Some s"
  show "live s"
  proof (cases "k = key")
    case True
    with res assms show ?thesis by (auto dest: process_tcp_packet_key_live)
  next
    case False
    with res have "t k = Some s" by (simp add: process_tcp_packet_other_key)
    with assms show ?thesis by (rule tracker_liveD)
  qed
qed

lemma process_calls_live:
  "tracker_live t \<Longrightarrow> tracker_live (fst (process_calls bo t cs))"
proof (induction cs arbitrary: t)
  case Nil
  then show ?case by simp
next
  case (Cons c cs)
  have "tracker_live (fst (process_call bo t c))"
    unfolding process_call_def using Cons.prems by (rule process_tcp_packet_live)
  then have "tracker_live (fst (process_calls bo (fst (process_call bo t c)) cs))"
    by (rule Cons.IH)
  then show ?case by (simp add: case_prod_beta)
qed

lemma main_loop_body_live:
  assumes inv: "tracker_live (connection_tracker st)"
  shows "tracker_live (connection_tracker (fst (main_loop_body bo r st)))"
proof (cases r)
  case RecvError
  with inv show ?thesis by (simp add: main_loop_body_def)
next
  case (Frame pkt)
  show ?thesis
  proof (cases "decode_frame bo (recv_into pkt (buffer st))")
    case None
    with Frame inv show ?thesis by (simp add: main_loop_body_def)
  next
    case (Some d)
    have "tracker_live (fst (process_tcp_packet bo (connection_tracker st) (d_key d)
            (d_tcp d) (d_src_ip d) (d_dst_ip d) (d_src_port d) (d_dst_port d)
            (d_tcp_data_len d)))"
      using inv by (rule process_tcp_packet_live)
    with Frame Some show ?thesis
      by (simp add: main_loop_body_def case_prod_beta)
  qed
qed

lemma capture_loop_live:
  "tracker_live (connection_tracker st) \<Longrightarrow>
   tracker_live (connection_tracker (fst (capture_loop bo st rs)))"
proof (induction rs arbitrary: st)
  case Nil
  then show ?case by simp
next
  case (Cons r rs)
  have "tracker_live (connection_tracker (fst (main_loop_body bo r st)))"
    using Cons.prems by (rule main_loop_body_live)
  then have "tracker_live
     (connection_tracker (fst (capture_loop bo (fst (main_loop_body bo r st)) rs)))"
    by (rule Cons.IH)
  then show ?case by (simp add: case_prod_beta)
qed

lemma process_calls_from_empty_live:
  "fst (process_calls bo Map.empty cs) k = Some s \<Longrightarrow> live s"
  using process_calls_live [OF tracker_live_empty] by (rule tracker_liveD)

lemma capture_loop_from_empty_live:
  "connection_tracker
     (fst (capture_loop bo \<lparr>buffer = buf, connection_tracker = Map.empty\<rparr> rs)) k = Some s
   \<Longrightarrow> live s"
proof -
  have "tracker_live (connection_tracker
          (fst (capture_loop bo \<lparr>buffer = buf, connection_tracker = Map.empty\<rparr> rs)))"
    by (rule capture_loop_live) (simp add: tracker_live_empty)
  then show "connection_tracker
     (fst (capture_loop bo \<lparr>buffer = buf, connection_tracker = Map.empty\<rparr> rs)) k = Some s
   \<Longrightarrow> live s"
    by (rule tracker_liveD)
qed

subsection \<open>Reset\<close>

text \<open>
  C3. Whatever the table holds and whatever the state of the key is (an absent key, the
  implicit \<open>CLOSED\<close>, included), a packet with \<open>rst\<close> set leaves the table with no
  entry for the key, all other keys untouched, and reports a reset from the state the
  key had. On a key that is already absent the table stays as it is, so a second reset
  after a first is a no-op on the table; the function has no failure path.
\<close>

theorem rst_removes_entry:
  assumes "rst tcp" and "rst tcp'"
  shows "fst (process_tcp_packet bo t key tcp sip dip sport dport n) key = None
       \<and> fst (process_tcp_packet bo t key tcp sip dip sport dport n) = t(key := None)
       \<and> snd (process_tcp_packet bo t key tcp sip dip sport dport n) =
           Some (event_line bo Rst sip sport dip dport (current_state_of t key) CLOSED None)
       \<and> (t key = None \<longrightarrow>
            fst (process_tcp_packet bo t key tcp sip dip sport dport n) = t)
       \<and> fst (process_tcp_packet bo
                (fst (process_tcp_packet bo t key tcp sip dip sport dport n))
                key tcp' sip' dip' sport' dport' n') =
           fst (process_tcp_packet bo t key tcp sip dip sport dport n)"
  using assms by (auto simp: process_tcp_packet_rst)

theorem rst_removes_entry_witness:
  "rst (flags_hdr 80 8080 False False False True)
   \<and> fst (process_tcp_packet LITTLE_ENDIAN [example_key LITTLE_ENDIAN \<mapsto> FIN_WAIT_2]
            (example_key LITTLE_ENDIAN) (flags_hdr 80 8080 False False False True)
            1 2 80 8080 0) (example_key LITTLE_ENDIAN) = None
   \<and> fst (process_tcp_packet LITTLE_ENDIAN Map.empty
            (example_key LITTLE_ENDIAN) (flags_hdr 80 8080 False False False True)
            1 2 80 8080 0) = Map.empty"
proof -
  have r: "rst (flags_hdr 80 8080 False False False True)"
    by (simp add: flags_hdr_def)
  show ?thesis
    using r
      rst_removes_entry [OF r r, of LITTLE_ENDIAN "[example_key LITTLE_ENDIAN \<mapsto> FIN_WAIT_2]"
        "example_key LITTLE_ENDIAN" 1 2 80 8080 0]
      rst_removes_entry [OF r r, of LITTLE_ENDIAN Map.empty
        "example_key LITTLE_ENDIAN" 1 2 80 8080 0]
    by simp
qed

subsection \<open>Unmatched input\<close>

text \<open>
  C5. When the current state of the key, the flags and the payload length satisfy the
  guard of no rule, \<open>process_tcp_packet\<close> returns the table as it was and reports no
  event; processing the same input once more gives the same result. The witness is the
  plain ACK without payload in \<open>ESTABLISHED\<close>.
\<close>

theorem unmatched_input_noop:
  assumes "\<not> rule_matched (current_state_of t key) tcp n"
  shows "process_tcp_packet bo t key tcp sip dip sport dport n = (t, None)
       \<and> process_tcp_packet bo
           (fst (process_tcp_packet bo t key tcp sip dip sport dport n))
           key tcp sip dip sport dport n = (t, None)"
  using assms by (simp add: process_tcp_packet_unmatched)

theorem unmatched_input_noop_witness:
  "\<not> rule_matched (current_state_of [example_key BIG_ENDIAN \<mapsto> ESTABLISHED]
         (example_key BIG_ENDIAN)) (flags_hdr 8080 80 False True False False) 0
   \<and> process_tcp_packet BIG_ENDIAN [example_key BIG_ENDIAN \<mapsto> ESTABLISHED]
       (example_key BIG_ENDIAN) (flags_hdr 8080 80 False True False False)
       (client_ip BIG_ENDIAN) (server_ip BIG_ENDIAN) 8080 80 0
     = ([example_key BIG_ENDIAN \<mapsto> ESTABLISHED], None)"
proof -
  have u: "\<not> rule_matched (current_state_of [example_key BIG_ENDIAN \<mapsto> ESTABLISHED]
         (example_key BIG_ENDIAN)) (flags_hdr 8080 80 False True False False) 0"
    by (simp add: rule_matched_def current_state_of_def flags_hdr_def)
  show ?thesis
    using u unmatched_input_noop [OF u, of BIG_ENDIAN "client_ip BIG_ENDIAN"
        "server_ip BIG_ENDIAN" 8080 80]
    by simp
qed

subsection \<open>No entry in the state \<open>CLOSED\<close>\<close>

text \<open>
  C10. Starting from an empty table, after any sequence of calls of
  \<open>process_tcp_packet\<close>, and after any sequence of frames through the capture loop, no
  key is mapped to \<open>CLOSED\<close>: no rule stores \<open>CLOSED\<close>, and whenever a rule reports a
  transition to \<open>CLOSED\<close> the key has no entry afterwards.
\<close>

theorem never_stores_closed:
  "fst (process_calls bo Map.empty cs) k \<noteq> Some CLOSED
   \<and> connection_tracker
        (fst (capture_loop bo \<lparr>buffer = buf, connection_tracker = Map.empty\<rparr> rs)) k
      \<noteq> Some CLOSED
   \<and> (snd (process_tcp_packet bo t key tcp sip dip sport dport n) = Some e
        \<and> to_state e = CLOSED
      \<longrightarrow> fst (process_tcp_packet bo t key tcp sip dip sport dport n) key = None)"
proof (intro conjI impI)
  show "fst (process_calls bo Map.empty cs) k \<noteq> Some CLOSED"
    by (auto dest: process_calls_from_empty_live simp: live_def)
next
  show "connection_tracker
        (fst (capture_loop bo \<lparr>buffer = buf, connection_tracker = Map.empty\<rparr> rs)) k
      \<noteq> Some CLOSED"
    by (auto dest: capture_loop_from_empty_live simp: live_def)
next
  assume "snd (process_tcp_packet bo t key tcp sip dip sport dport n) = Some e
        \<and> to_state e = CLOSED"
  then show "fst (process_tcp_packet bo t key tcp sip dip sport dport n) key = None"
    by (auto dest: process_tcp_packet_closed_removes)
qed

theorem never_stores_closed_witness:
  "snd (process_tcp_packet LITTLE_ENDIAN [example_key LITTLE_ENDIAN \<mapsto> TIME_WAIT]
          (example_key LITTLE_ENDIAN) (flags_hdr 80 8080 False True False False)
          1 2 80 8080 0)
     = Some (event_line LITTLE_ENDIAN Ack 1 80 2 8080 TIME_WAIT CLOSED None)
   \<and> to_state (event_line LITTLE_ENDIAN Ack 1 80 2 8080 TIME_WAIT CLOSED None) = CLOSED
   \<and> fst (process_tcp_packet LITTLE_ENDIAN [example_key LITTLE_ENDIAN \<mapsto> TIME_WAIT]
          (example_key LITTLE_ENDIAN) (flags_hdr 80 8080 False True False False)
          1 2 80 8080 0) (example_key LITTLE_ENDIAN) = None
   \<and> fst (process_calls LITTLE_ENDIAN Map.empty
          [from_client LITTLE_ENDIAN True False False False])
        (example_key LITTLE_ENDIAN) \<noteq> Some CLOSED"
proof -
  have e: "snd (process_tcp_packet LITTLE_ENDIAN [example_key LITTLE_ENDIAN \<mapsto> TIME_WAIT]
          (example_key LITTLE_ENDIAN) (flags_hdr 80 8080 False True False False)
          1 2 80 8080 0)
     = Some (event_line LITTLE_ENDIAN Ack 1 80 2 8080 TIME_WAIT CLOSED None)"
    by (simp add: process_tcp_packet_def Let_def current_state_of_def flags_hdr_def)
  have c: "to_state (event_line LITTLE_ENDIAN Ack 1 80 2 8080 TIME_WAIT CLOSED None) = CLOSED"
    by (simp add: event_line_def)
  show ?thesis
    using e c
      never_stores_closed [where bo = LITTLE_ENDIAN
        and cs = "[from_client LITTLE_ENDIAN True False False False]"
        and k = "example_key LITTLE_ENDIAN" and buf = "[]" and rs = "[]"
        and t = "[example_key LITTLE_ENDIAN \<mapsto> TIME_WAIT]"
        and key = "example_key LITTLE_ENDIAN"
        and tcp = "flags_hdr 80 8080 False True False False"
        and sip = 1 and dip = 2 and sport = 80 and dport = 8080 and n = 0
        and e = "event_line LITTLE_ENDIAN Ack 1 80 2 8080 TIME_WAIT CLOSED None"]
    by simp
qed

subsection \<open>The passive close is never tracked\<close>

text \<open>
  C4. In \<open>ESTABLISHED\<close>, a packet with \<open>fin\<close> set, \<open>rst\<close> clear and no payload always
  takes the rule of line 338 to \<open>FIN_WAIT_1\<close>; the rule of line 422 to \<open>CLOSE_WAIT\<close>
  never reports anything, in any table. So, starting from an empty table, no sequence of
  calls and no sequence of captured frames ever leaves a key in \<open>CLOSE_WAIT\<close> or in
  \<open>LAST_ACK\<close>.
\<close>

theorem close_wait_unreachable:
  "(current_state_of t key = ESTABLISHED \<and> fin tcp \<and> \<not> rst tcp \<and> n \<le> 0 \<longrightarrow>
      process_tcp_packet bo t key tcp sip dip sport dport n =
        (t(key \<mapsto> FIN_WAIT_1),
         Some (event_line bo Fin sip sport dip dport ESTABLISHED FIN_WAIT_1 None)))
   \<and> snd (process_tcp_packet bo t key tcp sip dip sport dport n) \<noteq>
        Some (event_line bo Fin sip sport dip dport ESTABLISHED CLOSE_WAIT None)
   \<and> fst (process_calls bo Map.empty cs) k \<notin> {Some CLOSE_WAIT, Some LAST_ACK}
   \<and> connection_tracker
        (fst (capture_loop bo \<lparr>buffer = buf, connection_tracker = Map.empty\<rparr> rs)) k
      \<notin> {Some CLOSE_WAIT, Some LAST_ACK}"
proof (intro conjI impI)
  assume "current_state_of t key = ESTABLISHED \<and> fin tcp \<and> \<not> rst tcp \<and> n \<le> 0"
  then show "process_tcp_packet bo t key tcp sip dip sport dport n =
        (t(key \<mapsto> FIN_WAIT_1),
         Some (event_line bo Fin sip sport dip dport ESTABLISHED FIN_WAIT_1 None))"
    by (simp add: process_tcp_packet_established_fin)
next
  have "to_state (event_line bo Fin sip sport dip dport ESTABLISHED CLOSE_WAIT None)
          = CLOSE_WAIT"
    by (simp add: event_line_def)
  then show "snd (process_tcp_packet bo t key tcp sip dip sport dport n) \<noteq>
        Some (event_line bo Fin sip sport dip dport ESTABLISHED CLOSE_WAIT None)"
    by (auto dest: process_tcp_packet_never_close_wait)
next
  show "fst (process_calls bo Map.empty cs) k \<notin> {Some CLOSE_WAIT, Some LAST_ACK}"
    by (auto dest: process_calls_from_empty_live simp: live_def)
next
  show "connection_tracker
        (fst (capture_loop bo \<lparr>buffer = buf, connection_tracker = Map.empty\<rparr> rs)) k
      \<notin> {Some CLOSE_WAIT, Some LAST_ACK}"
    by (auto dest: capture_loop_from_empty_live simp: live_def)
qed

theorem close_wait_unreachable_witness:
  "current_state_of [example_key BIG_ENDIAN \<mapsto> ESTABLISHED] (example_key BIG_ENDIAN)
     = ESTABLISHED
   \<and> fin (flags_hdr 80 8080 False True True False)
   \<and> \<not> rst (flags_hdr 80 8080 False True True False)
   \<and> fst (process_tcp_packet BIG_ENDIAN [example_key BIG_ENDIAN \<mapsto> ESTABLISHED]
        (example_key BIG_ENDIAN) (flags_hdr 80 8080 False True True False)
        (server_ip BIG_ENDIAN) (client_ip BIG_ENDIAN) 80 8080 0)
     = [example_key BIG_ENDIAN \<mapsto> FIN_WAIT_1]"
proof -
  have h: "current_state_of [example_key BIG_ENDIAN \<mapsto> ESTABLISHED] (example_key BIG_ENDIAN)
             = ESTABLISHED
           \<and> fin (flags_hdr 80 8080 False True True False)
           \<and> \<not> rst (flags_hdr 80 8080 False True True False) \<and> (0::int) \<le> 0"
    by (simp add: current_state_of_def flags_hdr_def)
  show ?thesis
    using h
      close_wait_unreachable [where t = "[example_key BIG_ENDIAN \<mapsto> ESTABLISHED]"
        and key = "example_key BIG_ENDIAN"
        and tcp = "flags_hdr 80 8080 False True True False" and n = 0
        and bo = BIG_ENDIAN and sip = "server_ip BIG_ENDIAN" and dip = "client_ip BIG_ENDIAN"
        and sport = 80 and dport = 8080]
    by simp
qed

subsection \<open>The full life cycle of a connection\<close>

text \<open>
  C1, as the code has it. From an empty table, the seven control packets SYN, SYN/ACK,
  ACK, FIN, ACK, FIN, ACK on one key (no reset, no payload; the FIN packets with or
  without \<open>ack\<close>, every packet from any direction) leave the table empty, so the key
  has no entry, and print exactly six lines, none of them a data line: Syn, SynAck,
  Fin, Ack, Fin, Ack, through the states \<open>SYN_SENT\<close>, \<open>ESTABLISHED\<close>, \<open>FIN_WAIT_1\<close>,
  \<open>FIN_WAIT_2\<close>, \<open>TIME_WAIT\<close> and back to \<open>CLOSED\<close>. The third packet, the ACK that
  ends the handshake, finds the key in \<open>ESTABLISHED\<close> already, matches no rule and
  prints nothing.
\<close>

theorem full_lifecycle:
  assumes "is_SYN tcp1" and "is_SYN_ACK tcp2" and "is_ACK tcp3" and "is_FIN tcp4"
    and "is_ACK tcp5" and "is_FIN tcp6" and "is_ACK tcp7"
  shows "(case process_calls bo Map.empty
           [control_packet key tcp1 a1 b1, control_packet key tcp2 a2 b2,
            control_packet key tcp3 a3 b3, control_packet key tcp4 a4 b4,
            control_packet key tcp5 a5 b5, control_packet key tcp6 a6 b6,
            control_packet key tcp7 a7 b7] of
          (t, es) \<Rightarrow>
            t = Map.empty \<and> t key = None
            \<and> map reason es = [Syn, SynAck, Fin, Ack, Fin, Ack]
            \<and> map from_state es =
                [CLOSED, SYN_SENT, ESTABLISHED, FIN_WAIT_1, FIN_WAIT_2, TIME_WAIT]
            \<and> map to_state es =
                [SYN_SENT, ESTABLISHED, FIN_WAIT_1, FIN_WAIT_2, TIME_WAIT, CLOSED])"
  using assms
  by (simp add: is_SYN_def is_SYN_ACK_def is_ACK_def is_FIN_def control_packet_def
      process_call_def process_tcp_packet_def Let_def current_state_of_def event_line_def)

text \<open>
  The run of the claim on the example flow: the client sends SYN, ACK, FIN and the last
  ACK, the server SYN/ACK, ACK and FIN.
\<close>

theorem full_lifecycle_witness:
  "is_SYN (flags_hdr 8080 80 True False False False)
   \<and> is_SYN_ACK (flags_hdr 80 8080 True True False False)
   \<and> is_ACK (flags_hdr 8080 80 False True False False)
   \<and> is_FIN (flags_hdr 8080 80 False True True False)
   \<and> is_ACK (flags_hdr 80 8080 False True False False)
   \<and> is_FIN (flags_hdr 80 8080 False True True False)
   \<and> map reason (snd (process_calls LITTLE_ENDIAN Map.empty
       [control_packet (example_key LITTLE_ENDIAN) (flags_hdr 8080 80 True False False False) 1 2,
        control_packet (example_key LITTLE_ENDIAN) (flags_hdr 80 8080 True True False False) 2 1,
        control_packet (example_key LITTLE_ENDIAN) (flags_hdr 8080 80 False True False False) 1 2,
        control_packet (example_key LITTLE_ENDIAN) (flags_hdr 8080 80 False True True False) 1 2,
        control_packet (example_key LITTLE_ENDIAN) (flags_hdr 80 8080 False True False False) 2 1,
        control_packet (example_key LITTLE_ENDIAN) (flags_hdr 80 8080 False True True False) 2 1,
        control_packet (example_key LITTLE_ENDIAN) (flags_hdr 8080 80 False True False False) 1 2]))
     = [Syn, SynAck, Fin, Ack, Fin, Ack]"
proof -
  have k: "is_SYN (flags_hdr 8080 80 True False False False)"
    "is_SYN_ACK (flags_hdr 80 8080 True True False False)"
    "is_ACK (flags_hdr 8080 80 False True False False)"
    "is_FIN (flags_hdr 8080 80 False True True False)"
    "is_ACK (flags_hdr 80 8080 False True False False)"
    "is_FIN (flags_hdr 80 8080 False True True False)"
    by (simp_all add: is_SYN_def is_SYN_ACK_def is_ACK_def is_FIN_def flags_hdr_def)
  show ?thesis
    using k
      full_lifecycle [OF k(1) k(2) k(3) k(4) k(5) k(6) k(3),
        where bo = LITTLE_ENDIAN and key = "example_key LITTLE_ENDIAN"
        and ?a1.0 = 1 and ?b1.0 = 2 and ?a2.0 = 2 and ?b2.0 = 1 and ?a3.0 = 1 and ?b3.0 = 2
        and ?a4.0 = 1 and ?b4.0 = 2 and ?a5.0 = 2 and ?b5.0 = 1 and ?a6.0 = 2 and ?b6.0 = 1
        and ?a7.0 = 1 and ?b7.0 = 2]
    by (simp add: case_prod_beta)
qed

text \<open>
  The sequence the claim names, with an Ack as third event, is not what the run prints:
  on the example flow the third line is the Fin.
\<close>

theorem full_lifecycle_counterexample:
  "map reason (snd (process_calls LITTLE_ENDIAN Map.empty
      [from_client LITTLE_ENDIAN True False False False,
       from_server LITTLE_ENDIAN True True False False,
       from_client LITTLE_ENDIAN False True False False,
       from_client LITTLE_ENDIAN False False True False,
       from_server LITTLE_ENDIAN False True False False,
       from_server LITTLE_ENDIAN False False True False,
       from_client LITTLE_ENDIAN False True False False]))
     = [Syn, SynAck, Fin, Ack, Fin, Ack]
   \<and> map reason (snd (process_calls LITTLE_ENDIAN Map.empty
      [from_client LITTLE_ENDIAN True False False False,
       from_server LITTLE_ENDIAN True True False False,
       from_client LITTLE_ENDIAN False True False False,
       from_client LITTLE_ENDIAN False False True False,
       from_server LITTLE_ENDIAN False True False False,
       from_server LITTLE_ENDIAN False False True False,
       from_client LITTLE_ENDIAN False True False False]))
     \<noteq> [Syn, SynAck, Ack, Fin, Ack, Fin, Ack]"
  by (simp add: from_client_def from_server_def flags_hdr_def control_packet_def
      process_call_def process_tcp_packet_def Let_def current_state_of_def event_line_def)

subsection \<open>Byte order and the receive buffer\<close>

text \<open>
  \<open>ntohs\<close> of a 16-bit field read in the order of the host is the number its two bytes
  denote on the wire, on a host of either byte order.
\<close>

lemma ntohs_word16_of_bytes:
  "ntohs bo (word16_of_bytes bo b0 b1) = word16_of_bytes BIG_ENDIAN b0 b1"
proof (cases bo)
  case LITTLE_ENDIAN
  have "push_bit 8 (ucast b0 OR push_bit 8 (ucast b1) :: uint16_t)
          OR drop_bit 8 (ucast b0 OR push_bit 8 (ucast b1))
        = push_bit 8 (ucast b0) OR ucast b1"
    by (rule bit_word_eqI) (auto simp: bit_simps dest: bit_imp_le_length)
  with LITTLE_ENDIAN show ?thesis
    by (simp add: ntohs_def word16_of_bytes_def)
next
  case BIG_ENDIAN
  then show ?thesis by (simp add: ntohs_def)
qed

lemma uint_total_len: "uint (word16_of_bytes BIG_ENDIAN 0 len) = uint len"
  by (simp add: word16_of_bytes_def uint_up_ucast is_up)

lemma nat_uint_times4: "nat (uint (w :: uint8_t) * 4) = unat w * 4"
  by (simp add: nat_mult_distrib)

text \<open>
  The two header lengths are nibbles times four, so every index the decoder reads lies
  below 88, inside the 65536 bytes of the buffer, and the payload length it computes
  lies between \<open>-120\<close> and \<open>65535\<close>, inside the range of a C \<open>int\<close>.
\<close>

lemma uint_low_nibble: "uint ((w :: uint8_t) AND 0x0F) \<le> 15"
proof -
  have "w AND 0x0F \<le> 0x0F" by (rule word_and_le1)
  then show ?thesis by (simp add: word_le_def)
qed

lemma uint_high_nibble: "uint (drop_bit 4 (w :: uint8_t)) \<le> 15"
proof -
  have "uint w < 256" using uint_lt2p [of w] by simp
  moreover have "uint (drop_bit 4 w) = uint w div 16"
    by (simp add: drop_bit_eq_div uint_div_distrib)
  ultimately show ?thesis by simp
qed

lemma decode_frame_reads_below_88:
  "14 + nat (uint ((w :: uint8_t) AND 0x0F) * 4) + 13 < 88"
  using uint_low_nibble [of w] by simp

lemma decode_frame_data_len_bounds:
  assumes "decode_frame bo buf = Some d"
  shows "- 120 \<le> d_tcp_data_len d \<and> d_tcp_data_len d \<le> 65535"
proof -
  let ?off = "14 + nat (uint (buf ! 14 AND 0x0F) * 4)"
  have len: "d_tcp_data_len d =
      uint (ntohs bo (load_u16 bo buf 16)) - uint (buf ! 14 AND 0x0F) * 4
      - uint (drop_bit 4 (buf ! (?off + 12))) * 4"
    using assms
    by (auto simp: decode_frame_def Let_def read_tcphdr_def split: if_splits)
  have a: "uint (ntohs bo (load_u16 bo buf 16)) < 65536"
    using uint_lt2p [of "ntohs bo (load_u16 bo buf 16)"] by simp
  have b: "0 \<le> uint (ntohs bo (load_u16 bo buf 16))" by simp
  have c: "0 \<le> uint (buf ! 14 AND 0x0F)" "0 \<le> uint (drop_bit 4 (buf ! (?off + 12)))"
    by simp_all
  show ?thesis
    using len a b c uint_low_nibble [of "buf ! 14"] uint_high_nibble [of "buf ! (?off + 12)"]
    by linarith
qed

lemma length_recv_into: "length (recv_into pkt buf) = length buf"
  by (simp add: recv_into_def Let_def)

lemma recv_into_idem: "recv_into (recv_into pkt buf) buf = recv_into pkt buf"
  by (simp add: recv_into_def Let_def)

lemma recv_into_nth:
  "length pkt \<le> length buf \<Longrightarrow> i < length pkt \<Longrightarrow> recv_into pkt buf ! i = pkt ! i"
  by (simp add: recv_into_def Let_def nth_append)

text \<open>
  The buffer after \<open>recv\<close>, byte by byte: the bytes of the frame, then the bytes the
  buffer held before.
\<close>

lemma recv_into_nth_cases:
  "i < length buf \<Longrightarrow>
   recv_into pkt buf ! i = (if i < length pkt then pkt ! i else buf ! i)"
  by (auto simp add: recv_into_def Let_def nth_append min_def)

lemma recv_into_prefix:
  "length f \<le> length buf \<Longrightarrow> recv_into (take n f) (recv_into f buf) = recv_into f buf"
  by (simp add: recv_into_def Let_def min_def)

text \<open>
  The decoder skips a frame exactly when the EtherType on the wire is not \<open>0x0800\<close> or
  the IP protocol is not 6; every other content of the buffer is decoded, with the
  fields read at their offsets.
\<close>

lemma ntohs_load_u16:
  "ntohs bo (load_u16 bo buf off) = word16_of_bytes BIG_ENDIAN (buf ! off) (buf ! (off + 1))"
  by (simp add: load_u16_def ntohs_word16_of_bytes)

lemma decode_frame_eq:
  "decode_frame bo buf =
     (if word16_of_bytes BIG_ENDIAN (buf ! 12) (buf ! 13) = 0x0800 \<and> buf ! 23 = 6 then
        Some \<lparr>d_tcp = read_tcphdr bo buf (14 + unat (buf ! 14 AND 0x0F) * 4),
              d_src_ip = load_u32 bo buf 26, d_dst_ip = load_u32 bo buf 30,
              d_src_port = source (read_tcphdr bo buf (14 + unat (buf ! 14 AND 0x0F) * 4)),
              d_dst_port = dest (read_tcphdr bo buf (14 + unat (buf ! 14 AND 0x0F) * 4)),
              d_tcp_data_len =
                uint (word16_of_bytes BIG_ENDIAN (buf ! 16) (buf ! 17))
                - uint (buf ! 14 AND 0x0F) * 4
                - uint (drop_bit 4 (buf ! (14 + unat (buf ! 14 AND 0x0F) * 4 + 12))) * 4,
              d_key = make_canonical_id (load_u32 bo buf 26)
                 (ntohs bo (source (read_tcphdr bo buf (14 + unat (buf ! 14 AND 0x0F) * 4))))
                 (load_u32 bo buf 30)
                 (ntohs bo (dest (read_tcphdr bo buf (14 + unat (buf ! 14 AND 0x0F) * 4))))\<rparr>
      else None)"
proof -
  have d: "doff (read_tcphdr bo buf off) = drop_bit 4 (buf ! (off + 12))" for off
    by (simp add: read_tcphdr_def)
  have e: "ntohs bo (load_u16 bo buf 12) = word16_of_bytes BIG_ENDIAN (buf ! 12) (buf ! 13)"
    "ntohs bo (load_u16 bo buf 16) = word16_of_bytes BIG_ENDIAN (buf ! 16) (buf ! 17)"
    by (simp_all add: ntohs_load_u16)
  show ?thesis
    by (simp add: decode_frame_def Let_def e d nat_uint_times4)
qed

subsection \<open>Decoding the example frames\<close>

lemma length_tcp_frame:
  "length (tcp_frame len [s0, s1, s2, s3] [d0, d1, d2, d3] [p0, p1] [q0, q1] db fb) = 54"
  by (simp add: tcp_frame_def)

lemma tcp_frame_bytes:
  "tcp_frame len [s0, s1, s2, s3] [d0, d1, d2, d3] [p0, p1] [q0, q1] db fb ! 12 = 0x08"
  "tcp_frame len [s0, s1, s2, s3] [d0, d1, d2, d3] [p0, p1] [q0, q1] db fb ! 13 = 0x00"
  "tcp_frame len [s0, s1, s2, s3] [d0, d1, d2, d3] [p0, p1] [q0, q1] db fb ! 14 = 0x45"
  "tcp_frame len [s0, s1, s2, s3] [d0, d1, d2, d3] [p0, p1] [q0, q1] db fb ! 16 = 0x00"
  "tcp_frame len [s0, s1, s2, s3] [d0, d1, d2, d3] [p0, p1] [q0, q1] db fb ! 17 = len"
  "tcp_frame len [s0, s1, s2, s3] [d0, d1, d2, d3] [p0, p1] [q0, q1] db fb ! 23 = 0x06"
  "tcp_frame len [s0, s1, s2, s3] [d0, d1, d2, d3] [p0, p1] [q0, q1] db fb ! 26 = s0"
  "tcp_frame len [s0, s1, s2, s3] [d0, d1, d2, d3] [p0, p1] [q0, q1] db fb ! 27 = s1"
  "tcp_frame len [s0, s1, s2, s3] [d0, d1, d2, d3] [p0, p1] [q0, q1] db fb ! 28 = s2"
  "tcp_frame len [s0, s1, s2, s3] [d0, d1, d2, d3] [p0, p1] [q0, q1] db fb ! 29 = s3"
  "tcp_frame len [s0, s1, s2, s3] [d0, d1, d2, d3] [p0, p1] [q0, q1] db fb ! 30 = d0"
  "tcp_frame len [s0, s1, s2, s3] [d0, d1, d2, d3] [p0, p1] [q0, q1] db fb ! 31 = d1"
  "tcp_frame len [s0, s1, s2, s3] [d0, d1, d2, d3] [p0, p1] [q0, q1] db fb ! 32 = d2"
  "tcp_frame len [s0, s1, s2, s3] [d0, d1, d2, d3] [p0, p1] [q0, q1] db fb ! 33 = d3"
  "tcp_frame len [s0, s1, s2, s3] [d0, d1, d2, d3] [p0, p1] [q0, q1] db fb ! 34 = p0"
  "tcp_frame len [s0, s1, s2, s3] [d0, d1, d2, d3] [p0, p1] [q0, q1] db fb ! 35 = p1"
  "tcp_frame len [s0, s1, s2, s3] [d0, d1, d2, d3] [p0, p1] [q0, q1] db fb ! 36 = q0"
  "tcp_frame len [s0, s1, s2, s3] [d0, d1, d2, d3] [p0, p1] [q0, q1] db fb ! 37 = q1"
  "tcp_frame len [s0, s1, s2, s3] [d0, d1, d2, d3] [p0, p1] [q0, q1] db fb ! 46 = db"
  "tcp_frame len [s0, s1, s2, s3] [d0, d1, d2, d3] [p0, p1] [q0, q1] db fb ! 47 = fb"
  by (simp_all add: tcp_frame_def)

lemma decode_tcp_frame:
  assumes "length buf = 65536"
  shows "decode_frame bo
           (recv_into (tcp_frame len [s0, s1, s2, s3] [d0, d1, d2, d3] [p0, p1] [q0, q1] db fb)
              buf) =
    Some \<lparr>d_tcp = \<lparr>source = word16_of_bytes bo p0 p1, dest = word16_of_bytes bo q0 q1,
                   doff = drop_bit 4 db, fin = bit fb 0, syn = bit fb 1, rst = bit fb 2,
                   psh = bit fb 3, ack = bit fb 4, urg = bit fb 5\<rparr>,
          d_src_ip = word32_of_bytes bo s0 s1 s2 s3,
          d_dst_ip = word32_of_bytes bo d0 d1 d2 d3,
          d_src_port = word16_of_bytes bo p0 p1,
          d_dst_port = word16_of_bytes bo q0 q1,
          d_tcp_data_len = uint len - 20 - uint (drop_bit 4 db) * 4,
          d_key = make_canonical_id
                    (word32_of_bytes bo s0 s1 s2 s3) (word16_of_bytes BIG_ENDIAN p0 p1)
                    (word32_of_bytes bo d0 d1 d2 d3) (word16_of_bytes BIG_ENDIAN q0 q1)\<rparr>"
proof -
  let ?f = "tcp_frame len [s0, s1, s2, s3] [d0, d1, d2, d3] [p0, p1] [q0, q1] db fb"
  have n: "\<And>i. i < 54 \<Longrightarrow> recv_into ?f buf ! i = ?f ! i"
    using assms by (simp add: recv_into_nth length_tcp_frame)
  have eth: "word16_of_bytes BIG_ENDIAN 0x08 0x00 = 0x0800"
    by (simp add: word16_of_bytes_def)
  have ihl: "uint (recv_into ?f buf ! 14 AND 0x0F) * 4 = 20"
    by (simp add: n tcp_frame_bytes)
  show ?thesis
    by (simp add: decode_frame_def eth ihl Let_def read_tcphdr_def load_u16_def load_u32_def
        ntohs_word16_of_bytes n tcp_frame_bytes uint_total_len)
qed

lemma example_key_canonical:
  "make_canonical_id (client_ip bo) 8080 (server_ip bo) 80 = example_key bo
   \<and> make_canonical_id (server_ip bo) 80 (client_ip bo) 8080 = example_key bo"
  by (cases bo)
     (simp_all add: make_canonical_id_def example_key_def client_ip_def server_ip_def
       word32_of_bytes_def)

lemma length_arp_frame: "length arp_frame = 42"
  by (simp add: arp_frame_def)

lemma length_zero_buffer: "length zero_buffer = 65536"
  by (simp add: zero_buffer_def)

lemma wire_ports:
  "word16_of_bytes BIG_ENDIAN 0x1F 0x90 = 8080" "word16_of_bytes BIG_ENDIAN 0x00 0x50 = 80"
  by (simp_all add: word16_of_bytes_def)

lemma flag_bytes:
  "\<not> bit (0x02 :: uint8_t) 0" "bit (0x02 :: uint8_t) 1" "\<not> bit (0x02 :: uint8_t) 2"
  "\<not> bit (0x02 :: uint8_t) 3" "\<not> bit (0x02 :: uint8_t) 4" "\<not> bit (0x02 :: uint8_t) 5"
  "\<not> bit (0x12 :: uint8_t) 0" "bit (0x12 :: uint8_t) 1" "\<not> bit (0x12 :: uint8_t) 2"
  "\<not> bit (0x12 :: uint8_t) 3" "bit (0x12 :: uint8_t) 4" "\<not> bit (0x12 :: uint8_t) 5"
  "drop_bit 4 (0x50 :: uint8_t) = 5" "drop_bit 4 (0xF0 :: uint8_t) = 15"
  by simp_all

lemma decode_syn_frame:
  assumes "length buf = 65536"
  shows "decode_frame bo (recv_into syn_frame buf) =
    Some \<lparr>d_tcp = flags_hdr (client_port bo) (server_port bo) True False False False,
          d_src_ip = client_ip bo, d_dst_ip = server_ip bo,
          d_src_port = client_port bo, d_dst_port = server_port bo,
          d_tcp_data_len = 0, d_key = example_key bo\<rparr>"
  unfolding syn_frame_def decode_tcp_frame [OF assms]
  by (simp add: flags_hdr_def client_port_def server_port_def wire_ports flag_bytes
      example_key_canonical [unfolded client_ip_def server_ip_def]
      client_ip_def server_ip_def)

lemma decode_synack_frame:
  assumes "length buf = 65536"
  shows "decode_frame bo (recv_into synack_frame buf) =
    Some \<lparr>d_tcp = flags_hdr (server_port bo) (client_port bo) True True False False,
          d_src_ip = server_ip bo, d_dst_ip = client_ip bo,
          d_src_port = server_port bo, d_dst_port = client_port bo,
          d_tcp_data_len = 0, d_key = example_key bo\<rparr>"
  unfolding synack_frame_def decode_tcp_frame [OF assms]
  by (simp add: flags_hdr_def client_port_def server_port_def wire_ports flag_bytes
      example_key_canonical [unfolded client_ip_def server_ip_def]
      client_ip_def server_ip_def)

lemma decode_long_header_frame:
  assumes "length buf = 65536"
  shows "decode_frame bo (recv_into long_header_frame buf) =
    Some \<lparr>d_tcp = (flags_hdr (client_port bo) (server_port bo) True False False False)
                    \<lparr>doff := 15\<rparr>,
          d_src_ip = client_ip bo, d_dst_ip = server_ip bo,
          d_src_port = client_port bo, d_dst_port = server_port bo,
          d_tcp_data_len = - 40, d_key = example_key bo\<rparr>"
  unfolding long_header_frame_def decode_tcp_frame [OF assms]
  by (simp add: flags_hdr_def client_port_def server_port_def wire_ports flag_bytes
      example_key_canonical [unfolded client_ip_def server_ip_def]
      client_ip_def server_ip_def)

lemma decode_short_total_frame:
  assumes "length buf = 65536"
  shows "decode_frame bo (recv_into short_total_frame buf) =
    Some \<lparr>d_tcp = flags_hdr (client_port bo) (server_port bo) True False False False,
          d_src_ip = client_ip bo, d_dst_ip = server_ip bo,
          d_src_port = client_port bo, d_dst_port = server_port bo,
          d_tcp_data_len = - 20, d_key = example_key bo\<rparr>"
  unfolding short_total_frame_def decode_tcp_frame [OF assms]
  by (simp add: flags_hdr_def client_port_def server_port_def wire_ports flag_bytes
      example_key_canonical [unfolded client_ip_def server_ip_def]
      client_ip_def server_ip_def)

lemma decode_arp_frame:
  assumes "length buf = 65536"
  shows "decode_frame bo (recv_into arp_frame buf) = None"
proof -
  have "recv_into arp_frame buf ! 12 = 0x08" "recv_into arp_frame buf ! 13 = 0x06"
    using assms
    by (simp_all add: recv_into_nth length_arp_frame) (simp_all add: arp_frame_def)
  then show ?thesis
    by (simp add: decode_frame_def load_u16_def ntohs_word16_of_bytes)
       (simp add: word16_of_bytes_def)
qed

lemma length_long_header_frame: "length long_header_frame = 54"
  by (simp add: long_header_frame_def length_tcp_frame)

lemma long_header_frame_bytes:
  "long_header_frame ! 14 = 0x45" "long_header_frame ! 46 = 0xF0"
  by (simp_all add: long_header_frame_def tcp_frame_bytes)

lemma received_syn_frame_bytes:
  "recv_into syn_frame zero_buffer ! 26 = 192" "recv_into syn_frame zero_buffer ! 27 = 168"
  "recv_into syn_frame zero_buffer ! 28 = 1" "recv_into syn_frame zero_buffer ! 29 = 100"
  by (simp_all add: recv_into_nth length_zero_buffer syn_frame_def length_tcp_frame
      tcp_frame_bytes)

lemma length_syn_frame: "length syn_frame = 54"
  by (simp add: syn_frame_def length_tcp_frame)

lemma received_tcp_frame_bytes:
  assumes "length buf = 65536"
  shows
  "recv_into (tcp_frame len [s0, s1, s2, s3] [d0, d1, d2, d3] [p0, p1] [q0, q1] db fb) buf ! 12 = 0x08"
  "recv_into (tcp_frame len [s0, s1, s2, s3] [d0, d1, d2, d3] [p0, p1] [q0, q1] db fb) buf ! 13 = 0x00"
  "recv_into (tcp_frame len [s0, s1, s2, s3] [d0, d1, d2, d3] [p0, p1] [q0, q1] db fb) buf ! 14 = 0x45"
  "recv_into (tcp_frame len [s0, s1, s2, s3] [d0, d1, d2, d3] [p0, p1] [q0, q1] db fb) buf ! 16 = 0x00"
  "recv_into (tcp_frame len [s0, s1, s2, s3] [d0, d1, d2, d3] [p0, p1] [q0, q1] db fb) buf ! 17 = len"
  "recv_into (tcp_frame len [s0, s1, s2, s3] [d0, d1, d2, d3] [p0, p1] [q0, q1] db fb) buf ! 23 = 0x06"
  "recv_into (tcp_frame len [s0, s1, s2, s3] [d0, d1, d2, d3] [p0, p1] [q0, q1] db fb) buf ! 46 = db"
  "recv_into (tcp_frame len [s0, s1, s2, s3] [d0, d1, d2, d3] [p0, p1] [q0, q1] db fb) buf ! 47 = fb"
  using assms by (simp_all add: recv_into_nth length_tcp_frame tcp_frame_bytes)

lemma stale_buffer:
  "recv_into headers_only_frame (buffer stale_state) = recv_into syn_frame zero_buffer"
  by (simp add: headers_only_frame_def stale_state_def recv_into_prefix length_syn_frame
      length_zero_buffer)

lemma length_headers_only_frame: "length headers_only_frame = 34"
  by (simp add: headers_only_frame_def length_syn_frame)

subsection \<open>The loop body on a decoded frame\<close>

lemma process_tcp_packet_nonpositive_len:
  "n \<le> 0 \<Longrightarrow>
   process_tcp_packet bo t key tcp sip dip sport dport n =
   process_tcp_packet bo t key tcp sip dip sport dport 0"
  by (simp add: process_tcp_packet_def Let_def)

lemma main_loop_body_decoded:
  "decode_frame bo (recv_into pkt (buffer st)) = Some d \<Longrightarrow>
   main_loop_body bo (Frame pkt) st =
     (case process_tcp_packet bo (connection_tracker st) (d_key d) (d_tcp d)
             (d_src_ip d) (d_dst_ip d) (d_src_port d) (d_dst_port d) (d_tcp_data_len d) of
        (t', e) \<Rightarrow> (\<lparr>buffer = recv_into pkt (buffer st), connection_tracker = t'\<rparr>, e))"
  by (simp add: main_loop_body_def)

subsection \<open>The concrete scenario\<close>

text \<open>
  C9. The frame 192.168.1.100:8080 \<open>\<rightarrow>\<close> 10.0.0.1:80 with only SYN set and the frame
  10.0.0.1:80 \<open>\<rightarrow>\<close> 192.168.1.100:8080 with SYN and ACK set, received one after the other
  into a buffer of 65536 bytes of any content on a host of either byte order, are both
  decoded to the key with \<open>src_ip\<close> 10.0.0.1, \<open>src_port\<close> 80, \<open>dst_ip\<close> 192.168.1.100
  and \<open>dst_port\<close> 8080 (the addresses as the words the host reads from the header), and
  the capture loop started on an empty table ends with exactly that key, mapped to
  \<open>ESTABLISHED\<close>.
\<close>

theorem concrete_scenario:
  assumes "length buf = 65536"
  shows "map_option d_key (decode_frame bo (recv_into syn_frame buf)) =
           Some \<lparr>src_ip = word32_of_bytes bo 10 0 0 1,
                 dst_ip = word32_of_bytes bo 192 168 1 100,
                 src_port = 80, dst_port = 8080\<rparr>
       \<and> map_option d_key
           (decode_frame bo (recv_into synack_frame (recv_into syn_frame buf))) =
           Some \<lparr>src_ip = word32_of_bytes bo 10 0 0 1,
                 dst_ip = word32_of_bytes bo 192 168 1 100,
                 src_port = 80, dst_port = 8080\<rparr>
       \<and> connection_tracker
           (fst (capture_loop bo \<lparr>buffer = buf, connection_tracker = Map.empty\<rparr>
                   [Frame syn_frame, Frame synack_frame])) =
           [\<lparr>src_ip = word32_of_bytes bo 10 0 0 1,
             dst_ip = word32_of_bytes bo 192 168 1 100,
             src_port = 80, dst_port = 8080\<rparr> \<mapsto> ESTABLISHED]"
proof -
  have l: "length (recv_into syn_frame buf) = 65536"
    using assms by (simp add: length_recv_into)
  show ?thesis
    by (simp add: main_loop_body_def decode_syn_frame [OF assms] decode_synack_frame [OF l]
        process_tcp_packet_def Let_def current_state_of_def flags_hdr_def
        example_key_def server_ip_def client_ip_def)
qed

theorem concrete_scenario_witness:
  "length zero_buffer = 65536
   \<and> connection_tracker
       (fst (capture_loop LITTLE_ENDIAN \<lparr>buffer = zero_buffer, connection_tracker = Map.empty\<rparr>
               [Frame syn_frame, Frame synack_frame]))
       \<lparr>src_ip = 0x0100000A, dst_ip = 0x6401A8C0, src_port = 80, dst_port = 8080\<rparr>
     = Some ESTABLISHED"
  using length_zero_buffer concrete_scenario [OF length_zero_buffer, of LITTLE_ENDIAN]
  by (simp add: word32_of_bytes_def)

subsection \<open>Frames shorter than the headers they declare\<close>

text \<open>
  C6, as the code has it. The loop checks no length and has no decode error. For a frame
  of any length, also one shorter than \<open>14 + ihl * 4 + doff * 4\<close>: the buffer after
  \<open>recv\<close> holds the bytes of the frame followed by the bytes it held before; the frame
  is skipped, with the table as it was and no event, exactly when the EtherType read
  from the buffer is not \<open>0x0800\<close> or the protocol byte is not 6; in every other case
  the decoder succeeds, reads the TCP header from the buffer at offset \<open>14 + ihl * 4\<close>
  (left-over bytes when the frame ends before), and the loop body hands the fields to
  \<open>process_tcp_packet\<close>, whose table and event are the result. So the frame is handled
  exactly as the frame of the size of the buffer made of its bytes followed by the
  left-over bytes. When \<open>recv\<close> fails the table and the buffer stay as they were and
  no event is reported.
\<close>

theorem short_frame_processed:
  "(let buf = recv_into pkt (buffer st) in
      (\<forall>i. i < length (buffer st) \<longrightarrow>
           buf ! i = (if i < length pkt then pkt ! i else buffer st ! i))
    \<and> (decode_frame bo buf = None) =
        (word16_of_bytes BIG_ENDIAN (buf ! 12) (buf ! 13) \<noteq> 0x0800 \<or> buf ! 23 \<noteq> 6)
    \<and> (word16_of_bytes BIG_ENDIAN (buf ! 12) (buf ! 13) \<noteq> 0x0800 \<or> buf ! 23 \<noteq> 6 \<longrightarrow>
         main_loop_body bo (Frame pkt) st = (st\<lparr>buffer := buf\<rparr>, None))
    \<and> (word16_of_bytes BIG_ENDIAN (buf ! 12) (buf ! 13) = 0x0800 \<and> buf ! 23 = 6 \<longrightarrow>
         (\<exists>d. decode_frame bo buf = Some d
            \<and> d_tcp d = read_tcphdr bo buf (14 + unat (buf ! 14 AND 0x0F) * 4)
            \<and> main_loop_body bo (Frame pkt) st =
                (case process_tcp_packet bo (connection_tracker st) (d_key d) (d_tcp d)
                        (d_src_ip d) (d_dst_ip d) (d_src_port d) (d_dst_port d)
                        (d_tcp_data_len d) of
                   (t', e) \<Rightarrow> (\<lparr>buffer = buf, connection_tracker = t'\<rparr>, e)))))
   \<and> main_loop_body bo (Frame pkt) st =
       main_loop_body bo (Frame (recv_into pkt (buffer st))) st
   \<and> main_loop_body bo RecvError st = (st, None)"
proof -
  let ?buf = "recv_into pkt (buffer st)"
  have bytes: "\<forall>i. i < length (buffer st) \<longrightarrow>
           ?buf ! i = (if i < length pkt then pkt ! i else buffer st ! i)"
    by (simp add: recv_into_nth_cases)
  have none: "(decode_frame bo ?buf = None) =
        (word16_of_bytes BIG_ENDIAN (?buf ! 12) (?buf ! 13) \<noteq> 0x0800 \<or> ?buf ! 23 \<noteq> 6)"
    by (simp add: decode_frame_eq)
  have skip: "main_loop_body bo (Frame pkt) st = (st\<lparr>buffer := ?buf\<rparr>, None)"
    if "word16_of_bytes BIG_ENDIAN (?buf ! 12) (?buf ! 13) \<noteq> 0x0800 \<or> ?buf ! 23 \<noteq> 6"
  proof -
    from that none have "decode_frame bo ?buf = None" by simp
    then show ?thesis by (simp add: main_loop_body_def)
  qed
  have pass: "\<exists>d. decode_frame bo ?buf = Some d
            \<and> d_tcp d = read_tcphdr bo ?buf (14 + unat (?buf ! 14 AND 0x0F) * 4)
            \<and> main_loop_body bo (Frame pkt) st =
                (case process_tcp_packet bo (connection_tracker st) (d_key d) (d_tcp d)
                        (d_src_ip d) (d_dst_ip d) (d_src_port d) (d_dst_port d)
                        (d_tcp_data_len d) of
                   (t', e) \<Rightarrow> (\<lparr>buffer = ?buf, connection_tracker = t'\<rparr>, e))"
    if "word16_of_bytes BIG_ENDIAN (?buf ! 12) (?buf ! 13) = 0x0800 \<and> ?buf ! 23 = 6"
  proof -
    from that obtain d where d: "decode_frame bo ?buf = Some d"
      and t: "d_tcp d = read_tcphdr bo ?buf (14 + unat (?buf ! 14 AND 0x0F) * 4)"
      by (simp add: decode_frame_eq)
    from d have "main_loop_body bo (Frame pkt) st =
                (case process_tcp_packet bo (connection_tracker st) (d_key d) (d_tcp d)
                        (d_src_ip d) (d_dst_ip d) (d_src_port d) (d_dst_port d)
                        (d_tcp_data_len d) of
                   (t', e) \<Rightarrow> (\<lparr>buffer = ?buf, connection_tracker = t'\<rparr>, e))"
      by (rule main_loop_body_decoded)
    with d t show ?thesis by blast
  qed
  have idem: "main_loop_body bo (Frame pkt) st =
       main_loop_body bo (Frame (recv_into pkt (buffer st))) st"
    by (simp add: main_loop_body_def recv_into_idem)
  have err: "main_loop_body bo RecvError st = (st, None)"
    by (simp add: main_loop_body_def)
  show ?thesis
    unfolding Let_def using bytes none skip pass idem err by blast
qed

text \<open>
  The 34-byte frame \<open>headers_only_frame\<close> arrives when the buffer still holds the
  earlier SYN: it is shorter than the 54 bytes of headers it declares, its flags are
  read from byte 47 of the old buffer content, and the loop body stores \<open>SYN_SENT\<close> and
  reports the Syn. The ARP frame is skipped.
\<close>

theorem short_frame_processed_witness:
  "int (length headers_only_frame)
     < 14 + uint (recv_into headers_only_frame (buffer stale_state) ! 14 AND 0x0F) * 4
          + uint (drop_bit 4 (recv_into headers_only_frame (buffer stale_state) ! 46)) * 4
   \<and> word16_of_bytes BIG_ENDIAN
         (recv_into headers_only_frame (buffer stale_state) ! 12)
         (recv_into headers_only_frame (buffer stale_state) ! 13) = 0x0800
   \<and> recv_into headers_only_frame (buffer stale_state) ! 23 = 6
   \<and> recv_into headers_only_frame (buffer stale_state) ! 47 = buffer stale_state ! 47
   \<and> connection_tracker
       (fst (main_loop_body LITTLE_ENDIAN (Frame headers_only_frame) stale_state))
       = [example_key LITTLE_ENDIAN \<mapsto> SYN_SENT]
   \<and> map_option reason
       (snd (main_loop_body LITTLE_ENDIAN (Frame headers_only_frame) stale_state))
       = Some Syn
   \<and> word16_of_bytes BIG_ENDIAN
         (recv_into arp_frame (buffer start_state) ! 12)
         (recv_into arp_frame (buffer start_state) ! 13) = 0x0806
   \<and> connection_tracker (fst (main_loop_body LITTLE_ENDIAN (Frame arp_frame) start_state))
       = connection_tracker start_state"
proof -
  let ?B = "recv_into headers_only_frame (buffer stale_state)"
  have B: "?B = recv_into syn_frame zero_buffer" by (rule stale_buffer)
  have b: "?B ! 12 = 0x08" "?B ! 13 = 0x00" "?B ! 14 = 0x45" "?B ! 23 = 0x06"
    "?B ! 46 = 0x50" "?B ! 47 = 0x02"
    unfolding B syn_frame_def by (simp_all add: received_tcp_frame_bytes length_zero_buffer)
  have old: "?B ! 47 = buffer stale_state ! 47"
    by (simp add: recv_into_nth_cases stale_state_def length_recv_into length_zero_buffer
        length_headers_only_frame)
  have short: "int (length headers_only_frame)
     < 14 + uint (?B ! 14 AND 0x0F) * 4 + uint (drop_bit 4 (?B ! 46)) * 4"
    by (simp add: b length_headers_only_frame)
  have pass: "word16_of_bytes BIG_ENDIAN (?B ! 12) (?B ! 13) = 0x0800 \<and> ?B ! 23 = 6"
    by (simp add: b word16_of_bytes_def)
  have dec: "decode_frame LITTLE_ENDIAN ?B = Some (decoded_syn LITTLE_ENDIAN 0)"
    unfolding B by (simp add: decoded_syn_def decode_syn_frame [OF length_zero_buffer])
  note T = short_frame_processed [of headers_only_frame stale_state LITTLE_ENDIAN,
      unfolded Let_def]
  from T pass obtain d where d: "decode_frame LITTLE_ENDIAN ?B = Some d"
    and r: "main_loop_body LITTLE_ENDIAN (Frame headers_only_frame) stale_state =
       (case process_tcp_packet LITTLE_ENDIAN (connection_tracker stale_state) (d_key d)
               (d_tcp d) (d_src_ip d) (d_dst_ip d) (d_src_port d) (d_dst_port d)
               (d_tcp_data_len d) of
          (t', e) \<Rightarrow> (\<lparr>buffer = ?B, connection_tracker = t'\<rparr>, e))"
    by blast
  from d dec have "d = decoded_syn LITTLE_ENDIAN 0" by simp
  with r have run: "main_loop_body LITTLE_ENDIAN (Frame headers_only_frame) stale_state =
      (\<lparr>buffer = ?B, connection_tracker = [example_key LITTLE_ENDIAN \<mapsto> SYN_SENT]\<rparr>,
       Some (event_line LITTLE_ENDIAN Syn (client_ip LITTLE_ENDIAN) (client_port LITTLE_ENDIAN)
               (server_ip LITTLE_ENDIAN) (server_port LITTLE_ENDIAN) CLOSED SYN_SENT None))"
    by (simp add: decoded_syn_def stale_state_def process_tcp_packet_def Let_def
         current_state_of_def flags_hdr_def)
  let ?A = "recv_into arp_frame (buffer start_state)"
  have a: "?A ! 12 = 0x08" "?A ! 13 = 0x06"
    by (simp_all add: start_state_def recv_into_nth length_arp_frame length_zero_buffer)
       (simp_all add: arp_frame_def)
  have ether: "word16_of_bytes BIG_ENDIAN (?A ! 12) (?A ! 13) = 0x0806"
    by (simp add: a word16_of_bytes_def)
  then have skip:
    "word16_of_bytes BIG_ENDIAN (?A ! 12) (?A ! 13) \<noteq> 0x0800 \<or> ?A ! 23 \<noteq> 6"
    by simp
  from short_frame_processed [of arp_frame start_state LITTLE_ENDIAN, unfolded Let_def] skip
  have arp: "main_loop_body LITTLE_ENDIAN (Frame arp_frame) start_state =
      (start_state\<lparr>buffer := ?A\<rparr>, None)"
    by blast
  have tab: "connection_tracker
       (fst (main_loop_body LITTLE_ENDIAN (Frame headers_only_frame) stale_state))
       = [example_key LITTLE_ENDIAN \<mapsto> SYN_SENT]"
    "map_option reason
       (snd (main_loop_body LITTLE_ENDIAN (Frame headers_only_frame) stale_state))
       = Some Syn"
    "connection_tracker (fst (main_loop_body LITTLE_ENDIAN (Frame arp_frame) start_state))
       = connection_tracker start_state"
    by (simp_all add: run arp event_line_def)
  from short pass old tab ether show ?thesis by blast
qed

text \<open>
  The claim as stated fails on \<open>long_header_frame\<close>: its 54 bytes are fewer than the
  94 bytes of headers it declares, yet the loop body decodes it, takes the SYN rule and
  stores \<open>SYN_SENT\<close> in the empty table.
\<close>

theorem truncated_frame_counterexample:
  "int (length long_header_frame)
     < 14 + uint (long_header_frame ! 14 AND 0x0F) * 4
          + uint (drop_bit 4 (long_header_frame ! 46)) * 4
   \<and> connection_tracker
       (fst (main_loop_body LITTLE_ENDIAN (Frame long_header_frame) start_state))
       = [example_key LITTLE_ENDIAN \<mapsto> SYN_SENT]
   \<and> map_option reason
       (snd (main_loop_body LITTLE_ENDIAN (Frame long_header_frame) start_state))
       = Some Syn"
  by (simp add: length_long_header_frame long_header_frame_bytes start_state_def
      main_loop_body_def decode_long_header_frame [OF length_zero_buffer]
      process_tcp_packet_def Let_def current_state_of_def flags_hdr_def event_line_def)

subsection \<open>Negative payload length\<close>

text \<open>
  C7, as the code has it. For every frame that is IPv4 and TCP (EtherType \<open>0x0800\<close>,
  protocol 6, as read from the buffer after \<open>recv\<close>) and whose computed payload length
  \<open>ip_total_len - ip_header_len - tcp_header_len\<close> is negative: the length is at
  least \<open>-120\<close>, the decoder succeeds and returns that length, no error is reported,
  and the loop body passes the frame to \<open>process_tcp_packet\<close>, whose result is that of
  the same packet with payload length 0 (the data rule asks for a length above 0, and no
  other rule looks at the length).
\<close>

theorem negative_length_processed:
  "(let buf = recv_into pkt (buffer st);
        off = 14 + unat (buf ! 14 AND 0x0F) * 4;
        len = uint (word16_of_bytes BIG_ENDIAN (buf ! 16) (buf ! 17))
              - uint (buf ! 14 AND 0x0F) * 4
              - uint (drop_bit 4 (buf ! (off + 12))) * 4
    in word16_of_bytes BIG_ENDIAN (buf ! 12) (buf ! 13) = 0x0800 \<and> buf ! 23 = 6 \<and> len < 0
       \<longrightarrow>
       - 120 \<le> len
       \<and> (\<exists>d. decode_frame bo buf = Some d
              \<and> d_tcp_data_len d = len
              \<and> main_loop_body bo (Frame pkt) st =
                  (case process_tcp_packet bo (connection_tracker st) (d_key d) (d_tcp d)
                          (d_src_ip d) (d_dst_ip d) (d_src_port d) (d_dst_port d) len of
                     (t', e) \<Rightarrow> (\<lparr>buffer = buf, connection_tracker = t'\<rparr>, e))
              \<and> process_tcp_packet bo (connection_tracker st) (d_key d) (d_tcp d)
                    (d_src_ip d) (d_dst_ip d) (d_src_port d) (d_dst_port d) len
                 = process_tcp_packet bo (connection_tracker st) (d_key d) (d_tcp d)
                    (d_src_ip d) (d_dst_ip d) (d_src_port d) (d_dst_port d) 0))"
proof -
  let ?buf = "recv_into pkt (buffer st)"
  let ?off = "14 + unat (?buf ! 14 AND 0x0F) * 4"
  let ?len = "uint (word16_of_bytes BIG_ENDIAN (?buf ! 16) (?buf ! 17))
              - uint (?buf ! 14 AND 0x0F) * 4
              - uint (drop_bit 4 (?buf ! (?off + 12))) * 4"
  have main: "- 120 \<le> ?len
       \<and> (\<exists>d. decode_frame bo ?buf = Some d
              \<and> d_tcp_data_len d = ?len
              \<and> main_loop_body bo (Frame pkt) st =
                  (case process_tcp_packet bo (connection_tracker st) (d_key d) (d_tcp d)
                          (d_src_ip d) (d_dst_ip d) (d_src_port d) (d_dst_port d) ?len of
                     (t', e) \<Rightarrow> (\<lparr>buffer = ?buf, connection_tracker = t'\<rparr>, e))
              \<and> process_tcp_packet bo (connection_tracker st) (d_key d) (d_tcp d)
                    (d_src_ip d) (d_dst_ip d) (d_src_port d) (d_dst_port d) ?len
                 = process_tcp_packet bo (connection_tracker st) (d_key d) (d_tcp d)
                    (d_src_ip d) (d_dst_ip d) (d_src_port d) (d_dst_port d) 0)"
    if h: "word16_of_bytes BIG_ENDIAN (?buf ! 12) (?buf ! 13) = 0x0800 \<and> ?buf ! 23 = 6
           \<and> ?len < 0"
  proof -
    from h obtain d where d: "decode_frame bo ?buf = Some d" and l: "d_tcp_data_len d = ?len"
      by (simp add: decode_frame_eq)
    from d have low: "- 120 \<le> d_tcp_data_len d"
      by (simp add: decode_frame_data_len_bounds)
    from d have run: "main_loop_body bo (Frame pkt) st =
                (case process_tcp_packet bo (connection_tracker st) (d_key d) (d_tcp d)
                        (d_src_ip d) (d_dst_ip d) (d_src_port d) (d_dst_port d)
                        (d_tcp_data_len d) of
                   (t', e) \<Rightarrow> (\<lparr>buffer = ?buf, connection_tracker = t'\<rparr>, e))"
      by (rule main_loop_body_decoded)
    from h have "?len \<le> 0" by simp
    then have zero: "process_tcp_packet bo (connection_tracker st) (d_key d) (d_tcp d)
                    (d_src_ip d) (d_dst_ip d) (d_src_port d) (d_dst_port d) ?len
                 = process_tcp_packet bo (connection_tracker st) (d_key d) (d_tcp d)
                    (d_src_ip d) (d_dst_ip d) (d_src_port d) (d_dst_port d) 0"
      by (rule process_tcp_packet_nonpositive_len)
    from low l have "- 120 \<le> ?len" by simp
    moreover from d l run zero have "\<exists>d. decode_frame bo ?buf = Some d
              \<and> d_tcp_data_len d = ?len
              \<and> main_loop_body bo (Frame pkt) st =
                  (case process_tcp_packet bo (connection_tracker st) (d_key d) (d_tcp d)
                          (d_src_ip d) (d_dst_ip d) (d_src_port d) (d_dst_port d) ?len of
                     (t', e) \<Rightarrow> (\<lparr>buffer = ?buf, connection_tracker = t'\<rparr>, e))
              \<and> process_tcp_packet bo (connection_tracker st) (d_key d) (d_tcp d)
                    (d_src_ip d) (d_dst_ip d) (d_src_port d) (d_dst_port d) ?len
                 = process_tcp_packet bo (connection_tracker st) (d_key d) (d_tcp d)
                    (d_src_ip d) (d_dst_ip d) (d_src_port d) (d_dst_port d) 0"
      by (intro exI [of _ d]) simp
    ultimately show ?thesis by blast
  qed
  show ?thesis unfolding Let_def using main by blast
qed

theorem negative_length_processed_witness:
  "word16_of_bytes BIG_ENDIAN
       (recv_into short_total_frame (buffer start_state) ! 12)
       (recv_into short_total_frame (buffer start_state) ! 13) = 0x0800
   \<and> recv_into short_total_frame (buffer start_state) ! 23 = 6
   \<and> uint (word16_of_bytes BIG_ENDIAN
              (recv_into short_total_frame (buffer start_state) ! 16)
              (recv_into short_total_frame (buffer start_state) ! 17))
       - uint (recv_into short_total_frame (buffer start_state) ! 14 AND 0x0F) * 4
       - uint (drop_bit 4 (recv_into short_total_frame (buffer start_state) ! 46)) * 4
       = - 20
   \<and> decode_frame BIG_ENDIAN (recv_into short_total_frame (buffer start_state))
       = Some (decoded_syn BIG_ENDIAN (- 20))
   \<and> connection_tracker
       (fst (main_loop_body BIG_ENDIAN (Frame short_total_frame) start_state))
       = [example_key BIG_ENDIAN \<mapsto> SYN_SENT]"
proof -
  let ?B = "recv_into short_total_frame (buffer start_state)"
  have b: "?B ! 12 = 0x08" "?B ! 13 = 0x00" "?B ! 14 = 0x45" "?B ! 16 = 0x00" "?B ! 17 = 20"
    "?B ! 23 = 0x06" "?B ! 46 = 0x50"
    unfolding short_total_frame_def start_state_def
    by (simp_all add: received_tcp_frame_bytes length_zero_buffer)
  have h: "word16_of_bytes BIG_ENDIAN (?B ! 12) (?B ! 13) = 0x0800 \<and> ?B ! 23 = 6"
    by (simp add: b word16_of_bytes_def)
  have l: "uint (word16_of_bytes BIG_ENDIAN (?B ! 16) (?B ! 17))
       - uint (?B ! 14 AND 0x0F) * 4 - uint (drop_bit 4 (?B ! 46)) * 4 = - 20"
    by (simp add: b word16_of_bytes_def)
  have o: "14 + unat (?B ! 14 AND 0x0F) * 4 + 12 = 46"
    by (simp add: b)
  have l': "uint (word16_of_bytes BIG_ENDIAN (?B ! 16) (?B ! 17))
       - uint (?B ! 14 AND 0x0F) * 4
       - uint (drop_bit 4 (?B ! (14 + unat (?B ! 14 AND 0x0F) * 4 + 12))) * 4 = - 20"
    by (subst o) (rule l)
  have neg: "uint (word16_of_bytes BIG_ENDIAN (?B ! 16) (?B ! 17))
       - uint (?B ! 14 AND 0x0F) * 4
       - uint (drop_bit 4 (?B ! (14 + unat (?B ! 14 AND 0x0F) * 4 + 12))) * 4 < 0"
    unfolding l' by simp
  have dec: "decode_frame BIG_ENDIAN ?B = Some (decoded_syn BIG_ENDIAN (- 20))"
    by (simp add: start_state_def decoded_syn_def
        decode_short_total_frame [OF length_zero_buffer])
  note T = negative_length_processed [of short_total_frame start_state BIG_ENDIAN,
      unfolded Let_def]
  from T h neg obtain d where d: "decode_frame BIG_ENDIAN ?B = Some d"
    and r: "main_loop_body BIG_ENDIAN (Frame short_total_frame) start_state =
       (case process_tcp_packet BIG_ENDIAN (connection_tracker start_state) (d_key d)
               (d_tcp d) (d_src_ip d) (d_dst_ip d) (d_src_port d) (d_dst_port d)
               (uint (word16_of_bytes BIG_ENDIAN (?B ! 16) (?B ! 17))
                 - uint (?B ! 14 AND 0x0F) * 4
                 - uint (drop_bit 4 (?B ! (14 + unat (?B ! 14 AND 0x0F) * 4 + 12))) * 4) of
          (t', e) \<Rightarrow> (\<lparr>buffer = ?B, connection_tracker = t'\<rparr>, e))"
    by blast
  from d dec have "d = decoded_syn BIG_ENDIAN (- 20)" by simp
  with r have run: "connection_tracker
       (fst (main_loop_body BIG_ENDIAN (Frame short_total_frame) start_state))
       = [example_key BIG_ENDIAN \<mapsto> SYN_SENT]"
    unfolding l'
    by (simp add: decoded_syn_def start_state_def process_tcp_packet_def Let_def
         current_state_of_def flags_hdr_def)
  from h l dec run show ?thesis by blast
qed

text \<open>
  The claim as stated fails on \<open>short_total_frame\<close>: the payload length computed is
  \<open>-20\<close>, and the frame is processed by the state machine, which stores \<open>SYN_SENT\<close>
  and reports the Syn.
\<close>

theorem negative_length_counterexample:
  "map_option d_tcp_data_len
     (decode_frame LITTLE_ENDIAN (recv_into short_total_frame (buffer start_state)))
     = Some (- 20)
   \<and> connection_tracker
       (fst (main_loop_body LITTLE_ENDIAN (Frame short_total_frame) start_state))
       = [example_key LITTLE_ENDIAN \<mapsto> SYN_SENT]
   \<and> map_option reason
       (snd (main_loop_body LITTLE_ENDIAN (Frame short_total_frame) start_state))
       = Some Syn"
  by (simp add: start_state_def
      main_loop_body_def decode_short_total_frame [OF length_zero_buffer]
      process_tcp_packet_def Let_def current_state_of_def flags_hdr_def event_line_def)

subsection \<open>What the decoder hands on\<close>

text \<open>
  C8, as the code has it. For every frame the decoder does not skip: the source and
  destination addresses are the words the host reads from bytes 26-29 and 30-33 of the
  buffer, that is, they stay in network byte order; the two ports, once through the
  \<open>ntohs\<close> that the flow key and the printed line apply to them, are in host byte
  order (the numbers the port bytes denote), and it is these the flow key is made of;
  the payload length is the IP total length (in host byte order) minus \<open>ihl * 4\<close> minus
  \<open>doff * 4\<close>.
\<close>

theorem decoder_fields:
  assumes "decode_frame bo buf = Some d"
  shows "d_src_ip d = word32_of_bytes bo (buf ! 26) (buf ! 27) (buf ! 28) (buf ! 29)
     \<and> d_dst_ip d = word32_of_bytes bo (buf ! 30) (buf ! 31) (buf ! 32) (buf ! 33)
     \<and> (let off = 14 + unat (buf ! 14 AND 0x0F) * 4 in
          ntohs bo (d_src_port d) = word16_of_bytes BIG_ENDIAN (buf ! off) (buf ! (off + 1))
        \<and> ntohs bo (d_dst_port d) =
            word16_of_bytes BIG_ENDIAN (buf ! (off + 2)) (buf ! (off + 3))
        \<and> d_key d =
            make_canonical_id
              (d_src_ip d) (ntohs bo (d_src_port d)) (d_dst_ip d) (ntohs bo (d_dst_port d))
        \<and> d_tcp_data_len d =
            uint (word16_of_bytes BIG_ENDIAN (buf ! 16) (buf ! 17))
            - uint (buf ! 14 AND 0x0F) * 4
            - uint (drop_bit 4 (buf ! (off + 12))) * 4)"
  using assms
  by (auto simp: decode_frame_def Let_def read_tcphdr_def load_u16_def load_u32_def
      ntohs_word16_of_bytes nat_uint_times4 add.assoc split: if_splits)

theorem decoder_fields_witness:
  "decode_frame LITTLE_ENDIAN (recv_into syn_frame zero_buffer)
     = Some (decoded_syn LITTLE_ENDIAN 0)
   \<and> d_src_ip (decoded_syn LITTLE_ENDIAN 0) = word32_of_bytes LITTLE_ENDIAN 192 168 1 100
   \<and> d_src_ip (decoded_syn LITTLE_ENDIAN 0) = 0x6401A8C0"
proof -
  have d: "decode_frame LITTLE_ENDIAN (recv_into syn_frame zero_buffer)
     = Some (decoded_syn LITTLE_ENDIAN 0)"
    by (simp add: decoded_syn_def decode_syn_frame [OF length_zero_buffer])
  have "d_src_ip (decoded_syn LITTLE_ENDIAN 0) = word32_of_bytes LITTLE_ENDIAN 192 168 1 100"
    using decoder_fields [OF d, THEN conjunct1] by (simp add: received_syn_frame_bytes)
  then show ?thesis
    using d by (simp add: word32_of_bytes_def)
qed

text \<open>
  The claim as stated fails on a little-endian host: for the SYN of the client the
  source address handed on is \<open>0x6401A8C0\<close>, not the address 192.168.1.100 in host byte
  order, which is \<open>0xC0A80164\<close>.
\<close>

theorem decoder_fields_counterexample:
  "map_option d_src_ip (decode_frame LITTLE_ENDIAN (recv_into syn_frame zero_buffer))
     = Some 0x6401A8C0
   \<and> map_option d_src_ip (decode_frame LITTLE_ENDIAN (recv_into syn_frame zero_buffer))
     \<noteq> Some (word32_of_bytes BIG_ENDIAN 192 168 1 100)
   \<and> word32_of_bytes BIG_ENDIAN 192 168 1 100 = 0xC0A80164"
  by (simp add: decode_syn_frame [OF length_zero_buffer] client_ip_def word32_of_bytes_def)

end
